theory Spec2Isabelle
  imports Complex_Main
begin

section \<open>Input entities\<close>

text \<open>
  The input builder hands the core two lists of dictionaries:
  \<^verbatim>\<open>{"id": i+1, "qualifications": qualifications}\<close> for an instructor and
  \<^verbatim>\<open>{"id": i+1, "course": course}\<close> for a student. The key \<^verbatim>\<open>"id"\<close> is
  the field \<open>instructor_id\<close> resp. \<open>student_id\<close> here (\<open>id\<close> is the identity function of
  HOL). Qualifications are a Python list of integers, a course is a Python integer.
\<close>

record instructor =
  instructor_id :: int
  qualifications :: "int list"

record student =
  student_id :: int
  course :: int

section \<open>The modelling layer (pulp)\<close>

text \<open>
  What the program uses of the modelling library: variables with a category, affine
  expressions, constraints with a sense and a right-hand side, and a problem that collects an
  objective and constraints. A variable is identified by its name; the name
  \<^verbatim>\<open>f"assign_instructor_{i}_to_student_{j}"\<close> is kept as the pair \<open>(i, j)\<close> it is
  formatted from.
\<close>

datatype category = LpInteger | LpBinary

record lp_variable =
  name :: "nat \<times> nat"
  cat :: category

datatype constraint_sense = LpConstraintLE | LpConstraintEQ | LpConstraintGE

datatype direction = LpMinimize | LpMaximize

type_synonym affine = "(lp_variable \<times> int) list"

record lp_constraint =
  lhs :: affine
  sense :: constraint_sense
  rhs :: int

record lp_problem =
  direction :: direction
  objective :: affine
  constraints :: "lp_constraint list"

definition LpProblem :: "direction \<Rightarrow> lp_problem" where
  "LpProblem d = \<lparr>direction = d, objective = [], constraints = []\<rparr>"

definition LpVariable :: "nat \<times> nat \<Rightarrow> category \<Rightarrow> lp_variable" where
  "LpVariable n c = \<lparr>name = n, cat = c\<rparr>"

definition lpSum :: "lp_variable list \<Rightarrow> affine" where
  "lpSum vs = map (\<lambda>v. (v, 1)) vs"

text \<open>\<^verbatim>\<open>model += expression\<close> sets the objective, \<^verbatim>\<open>model += constraint\<close> appends a
  constraint.\<close>

definition set_objective :: "affine \<Rightarrow> lp_problem \<Rightarrow> lp_problem" where
  "set_objective e m = m\<lparr>objective := e\<rparr>"

definition add_constraint :: "lp_constraint \<Rightarrow> lp_problem \<Rightarrow> lp_problem" where
  "add_constraint c m = m\<lparr>constraints := constraints m @ [c]\<rparr>"

definition le_constraint :: "affine \<Rightarrow> int \<Rightarrow> lp_constraint" where
  "le_constraint e b = \<lparr>lhs = e, sense = LpConstraintLE, rhs = b\<rparr>"

definition eq_constraint :: "affine \<Rightarrow> int \<Rightarrow> lp_constraint" where
  "eq_constraint e b = \<lparr>lhs = e, sense = LpConstraintEQ, rhs = b\<rparr>"

text \<open>
  A dictionary subscript \<^verbatim>\<open>x[i, j]\<close>. Python raises KeyError on a missing key; every
  subscript of the program is on a key that the loop before it has stored
  (lemma \<open>decision_variables_item\<close> below).
\<close>

definition item :: "('k \<rightharpoonup> 'v) \<Rightarrow> 'k \<Rightarrow> 'v" where
  "item d k = the (d k)"

section \<open>The model builder\<close>

text \<open>The loop of lines 16 to 19, which fills the dictionary \<open>x\<close>.\<close>

definition decision_variables :: "nat list \<Rightarrow> nat list \<Rightarrow> (nat \<times> nat \<rightharpoonup> lp_variable)" where
  "decision_variables instructor_ids student_ids =
     fold (\<lambda>i x. fold (\<lambda>j x. x((i, j) \<mapsto> LpVariable (i, j) LpBinary)) student_ids x)
       instructor_ids Map.empty"

text \<open>
  \<^verbatim>\<open>create_optimization_model\<close>, lines 6 to 43, statement by statement: the
  problem, the index lists, the variables, the objective, one constraint per instructor,
  one per student, the compatibility constraints and the aircraft constraint. The loop
  variable \<^verbatim>\<open>course\<close> of line 35 is \<open>c\<close>, since \<open>course\<close> is the field of a
  student. The function contains no \<^verbatim>\<open>raise\<close>, so it has no error result.
\<close>

definition create_optimization_model ::
  "instructor list \<Rightarrow> student list \<Rightarrow> int \<Rightarrow> lp_problem \<times> (nat \<times> nat \<rightharpoonup> lp_variable)" where
  "create_optimization_model instructors students aircraft_count =
    (let model = LpProblem LpMaximize;
         instructor_ids = [0..<length instructors];
         student_ids = [0..<length students];
         course_ids = [1, 2, 3];
         x = decision_variables instructor_ids student_ids;
         model = set_objective
                   (lpSum (concat (map (\<lambda>i. map (\<lambda>j. item x (i, j)) student_ids) instructor_ids)))
                   model;
         model = fold (\<lambda>i. add_constraint
                   (le_constraint (lpSum (map (\<lambda>j. item x (i, j)) student_ids)) 1))
                   instructor_ids model;
         model = fold (\<lambda>j. add_constraint
                   (le_constraint (lpSum (map (\<lambda>i. item x (i, j)) instructor_ids)) 1))
                   student_ids model;
         model = fold (\<lambda>i. fold (\<lambda>j. fold (\<lambda>c m.
                     if c \<notin> set (qualifications (instructors ! i)) \<and> c = course (students ! j)
                     then add_constraint (eq_constraint (lpSum [item x (i, j)]) 0) m
                     else m) course_ids) student_ids) instructor_ids model;
         model = add_constraint
                   (le_constraint
                      (lpSum (concat (map (\<lambda>i. map (\<lambda>j. item x (i, j)) student_ids) instructor_ids)))
                      aircraft_count)
                   model
     in (model, x))"

text \<open>The problem descriptor alone, the first component of the pair that is returned.\<close>

definition built_model :: "instructor list \<Rightarrow> student list \<Rightarrow> int \<Rightarrow> lp_problem" where
  "built_model instructors students aircraft_count =
     fst (create_optimization_model instructors students aircraft_count)"

section \<open>The solver\<close>

text \<open>
  \<^verbatim>\<open>model.solve(pulp.PULP_CBC_CMD(msg=False))\<close> runs the external CBC program and stores a
  value in every variable. The solver is not part of the program: it is a parameter, a
  function from the problem to the values of the variables (by name), and what is known of
  it is its contract, that the values are a solution of the problem (\<open>feasible\<close>) with the
  best objective (\<open>optimal\<close>). Values are integers: the floating-point numbers that CBC
  prints are not modelled.
\<close>

type_synonym valuation = "nat \<times> nat \<Rightarrow> int"

type_synonym solver = "lp_problem \<Rightarrow> valuation"

definition pulp_value :: "valuation \<Rightarrow> lp_variable \<Rightarrow> int" where
  "pulp_value vals v = vals (name v)"

definition affine_value :: "valuation \<Rightarrow> affine \<Rightarrow> int" where
  "affine_value vals e = sum_list (map (\<lambda>(v, c). c * pulp_value vals v) e)"

definition in_category :: "valuation \<Rightarrow> lp_variable \<Rightarrow> bool" where
  "in_category vals v =
     (case cat v of LpInteger \<Rightarrow> True
      | LpBinary \<Rightarrow> pulp_value vals v = 0 \<or> pulp_value vals v = 1)"

definition holds :: "valuation \<Rightarrow> lp_constraint \<Rightarrow> bool" where
  "holds vals c =
     (case sense c of
        LpConstraintLE \<Rightarrow> affine_value vals (lhs c) \<le> rhs c
      | LpConstraintEQ \<Rightarrow> affine_value vals (lhs c) = rhs c
      | LpConstraintGE \<Rightarrow> affine_value vals (lhs c) \<ge> rhs c)"

definition problem_variables :: "lp_problem \<Rightarrow> lp_variable list" where
  "problem_variables m = map fst (objective m) @ concat (map (\<lambda>c. map fst (lhs c)) (constraints m))"

definition feasible :: "lp_problem \<Rightarrow> valuation \<Rightarrow> bool" where
  "feasible m vals \<longleftrightarrow>
     list_all (in_category vals) (problem_variables m) \<and> list_all (holds vals) (constraints m)"

definition better :: "direction \<Rightarrow> int \<Rightarrow> int \<Rightarrow> bool" where
  "better d a b = (case d of LpMaximize \<Rightarrow> b \<le> a | LpMinimize \<Rightarrow> a \<le> b)"

definition optimal :: "lp_problem \<Rightarrow> valuation \<Rightarrow> bool" where
  "optimal m vals \<longleftrightarrow>
     feasible m vals \<and>
     (\<forall>vals'. feasible m vals' \<longrightarrow>
        better (direction m) (affine_value vals (objective m)) (affine_value vals' (objective m)))"

section \<open>Results extraction\<close>

text \<open>Python's \<^verbatim>\<open>str\<close> of an integer and of a list of integers.\<close>

function str_nat :: "nat \<Rightarrow> string" where
  "str_nat n = (if n < 10 then [''0123456789'' ! n] else str_nat (n div 10) @ [''0123456789'' ! (n mod 10)])"
  by pat_completeness auto
termination
  by (relation "measure (\<lambda>n. n)") auto

definition str_int :: "int \<Rightarrow> string" where
  "str_int i = (if i < 0 then ''-'' @ str_nat (nat (- i)) else str_nat (nat i))"

fun join :: "string \<Rightarrow> string list \<Rightarrow> string" where
  "join sep [] = ''''"
| "join sep [s] = s"
| "join sep (s # t # ss) = s @ sep @ join sep (t # ss)"

definition str_list :: "int list \<Rightarrow> string" where
  "str_list xs = ''['' @ join '', '' (map str_int xs) @ '']''"

record result_row =
  Instructor_ID :: int
  Instructor_Qualifications :: string
  Student_ID :: int
  Student_Course :: int

definition solve_and_display_results ::
  "solver \<Rightarrow> lp_problem \<Rightarrow> (nat \<times> nat \<rightharpoonup> lp_variable) \<Rightarrow> instructor list \<Rightarrow> student list
     \<Rightarrow> result_row list \<times> int \<times> int" where
  "solve_and_display_results solve model x instructors students =
    (let vals = solve model;
         (results, assigned_students) =
           fold (\<lambda>i. fold (\<lambda>j (results, assigned_students).
                   if pulp_value vals (item x (i, j)) = 1
                   then (results @ [\<lparr>Instructor_ID = int i + 1,
                                     Instructor_Qualifications = str_list (qualifications (instructors ! i)),
                                     Student_ID = int j + 1,
                                     Student_Course = course (students ! j)\<rparr>],
                         assigned_students + 1)
                   else (results, assigned_students))
                 [0..<length students])
             [0..<length instructors] ([], 0);
         total_students = int (length students);
         unassigned_students = total_students - assigned_students
     in (results, assigned_students, unassigned_students))"

text \<open>The two calls of lines 136 and 137: build the model, then solve it and extract.\<close>

definition solve_instance ::
  "solver \<Rightarrow> instructor list \<Rightarrow> student list \<Rightarrow> int \<Rightarrow> result_row list \<times> int \<times> int" where
  "solve_instance solve instructors students aircraft_count =
     (let (model, x) = create_optimization_model instructors students aircraft_count
      in solve_and_display_results solve model x instructors students)"

section \<open>The Run Optimization block\<close>

text \<open>
  Lines 126 to 172. The counts \<^verbatim>\<open>instructor_count\<close> and \<^verbatim>\<open>student_count\<close> are the
  lengths of the two lists, which the input builder fills with that many entries. Python's
  \<^verbatim>\<open>/\<close> raises ZeroDivisionError on a zero divisor; the quotient is kept exact
  (a rational), the rounding of floating point and the formatting of the percentage are not
  modelled. \<^verbatim>\<open>st.success\<close> with the table and the metrics is \<open>Success\<close>,
  \<^verbatim>\<open>st.error\<close> is \<open>Error\<close> with its message.
\<close>

datatype error = ZeroDivisionError

definition truediv :: "int \<Rightarrow> int \<Rightarrow> error + rat" where
  "truediv a b = (if b = 0 then Inl ZeroDivisionError else Inr (of_int a / of_int b))"

record unassigned_row =
  Unassigned_Student_ID :: int
  Unassigned_Course :: int

datatype display =
    Success (shown_assigned: int) (shown_unassigned: int) (shown_results: "result_row list")
      (instructor_utilization: rat) (aircraft_utilization: rat)
      (shown_unassigned_students: "unassigned_row list option")
  | Error string

definition unassigned_table :: "result_row list \<Rightarrow> student list \<Rightarrow> unassigned_row list" where
  "unassigned_table results_df students =
     (let assigned_student_ids = (if results_df \<noteq> [] then map Student_ID results_df else [])
      in fold (\<lambda>j unassigned_df.
                 if int j + 1 \<notin> set assigned_student_ids
                 then unassigned_df @ [\<lparr>Unassigned_Student_ID = int j + 1,
                                         Unassigned_Course = course (students ! j)\<rparr>]
                 else unassigned_df)
              [0..<length students] [])"

definition run_optimization ::
  "solver \<Rightarrow> instructor list \<Rightarrow> student list \<Rightarrow> int \<Rightarrow> error + display" where
  "run_optimization solve instructors students aircraft_count =
    (let instructor_count = int (length instructors);
         (results_df, assigned_students, unassigned_students) =
            solve_instance solve instructors students aircraft_count
     in if assigned_students > 0 then
          (case truediv assigned_students instructor_count of
             Inl e \<Rightarrow> Inl e
           | Inr q1 \<Rightarrow>
          (case truediv assigned_students aircraft_count of
             Inl e \<Rightarrow> Inl e
           | Inr q2 \<Rightarrow>
             Inr (Success assigned_students unassigned_students results_df (q1 * 100) (q2 * 100)
                   (if unassigned_students > 0
                    then Some (unassigned_table results_df students) else None))))
        else Inr (Error ''No students could be assigned. Check instructor qualifications and constraints.''))"

section \<open>The assignment problem in the words of the specification\<close>



text \<open>
  Removing the course \<open>c\<close> from the qualifications of the instructor at position
  \<open>k\<close>; a position outside the list changes nothing.
\<close>

definition remove_qualification :: "instructor list \<Rightarrow> nat \<Rightarrow> int \<Rightarrow> instructor list" where
  "remove_qualification instructors k c =
     instructors[k := (instructors ! k)\<lparr>qualifications := removeAll c (qualifications (instructors ! k))\<rparr>]"

section \<open>Notions used in the proofs\<close>

text \<open>
  The variable that the builder stores under the key \<open>(i, j)\<close>; the list of all variables
  in the order of the double loop; the constraints that the loop of lines 33 to 38 adds;
  the pairs that the extraction loop reports, as a set and as the list in loop order; and
  the row it appends for a pair.
\<close>

definition binary_var :: "nat \<Rightarrow> nat \<Rightarrow> lp_variable" where
  "binary_var i j = LpVariable (i, j) LpBinary"

definition all_variables :: "(nat \<times> nat \<rightharpoonup> lp_variable) \<Rightarrow> nat \<Rightarrow> nat \<Rightarrow> lp_variable list" where
  "all_variables x n m = concat (map (\<lambda>i. map (\<lambda>j. item x (i, j)) [0..<m]) [0..<n])"

definition compatibility_constraints ::
  "instructor list \<Rightarrow> student list \<Rightarrow> (nat \<times> nat \<rightharpoonup> lp_variable) \<Rightarrow> lp_constraint list" where
  "compatibility_constraints instructors students x =
     concat (map (\<lambda>i. concat (map (\<lambda>j. concat (map (\<lambda>c.
        if c \<notin> set (qualifications (instructors ! i)) \<and> c = course (students ! j)
        then [eq_constraint (lpSum [item x (i, j)]) 0] else []) [1, 2, 3]))
      [0..<length students])) [0..<length instructors])"

definition assigned_pairs :: "valuation \<Rightarrow> nat \<Rightarrow> nat \<Rightarrow> (nat \<times> nat) set" where
  "assigned_pairs vals n m = {(i, j). i < n \<and> j < m \<and> vals (i, j) = 1}"

definition assigned_list :: "valuation \<Rightarrow> nat \<Rightarrow> nat \<Rightarrow> (nat \<times> nat) list" where
  "assigned_list vals n m = filter (\<lambda>p. vals p = 1) (List.product [0..<n] [0..<m])"

definition result_row_of :: "instructor list \<Rightarrow> student list \<Rightarrow> nat \<times> nat \<Rightarrow> result_row" where
  "result_row_of instructors students p =
     \<lparr>Instructor_ID = int (fst p) + 1,
      Instructor_Qualifications = str_list (qualifications (instructors ! fst p)),
      Student_ID = int (snd p) + 1,
      Student_Course = course (students ! snd p)\<rparr>"


text \<open>The message of the \<^verbatim>\<open>st.error\<close> call of line 172.\<close>

definition no_assignment_message :: string where
  "no_assignment_message =
     ''No students could be assigned. Check instructor qualifications and constraints.''"

section \<open>Concrete instances\<close>

text \<open>
  Scenario 1 of the specification: three instructors qualified for \<open>{1}\<close>, \<open>{1, 2}\<close> and
  \<open>{1, 2, 3}\<close>, three students who need the courses 1, 2 and 3. \<open>diagonal_solver\<close>
  is a solver that pairs instructor \<open>i\<close> with student \<open>i\<close>.
\<close>

definition scenario_instructors :: "instructor list" where
  "scenario_instructors =
     [\<lparr>instructor_id = 1, qualifications = [1]\<rparr>,
      \<lparr>instructor_id = 2, qualifications = [1, 2]\<rparr>,
      \<lparr>instructor_id = 3, qualifications = [1, 2, 3]\<rparr>]"

definition scenario_students :: "student list" where
  "scenario_students =
     [\<lparr>student_id = 1, course = 1\<rparr>, \<lparr>student_id = 2, course = 2\<rparr>, \<lparr>student_id = 3, course = 3\<rparr>]"

definition diagonal_solver :: solver where
  "diagonal_solver m = (\<lambda>(i, j). if i = j then 1 else 0)"

text \<open>
  Two solvers that assign two pairs each (for a capacity of two), the solver that assigns
  nothing and the one that sets every variable to 1.
\<close>

definition first_two_solver :: solver where
  "first_two_solver m = (\<lambda>(i, j). if i = j \<and> i < 2 then 1 else 0)"

definition other_two_solver :: solver where
  "other_two_solver m = (\<lambda>(i, j). if (i = 1 \<and> j = 0) \<or> (i = 2 \<and> j = 2) then 1 else 0)"

definition zero_solver :: solver where
  "zero_solver m = (\<lambda>p. 0)"

definition one_solver :: solver where
  "one_solver m = (\<lambda>p. 1)"

text \<open>
  Scenario 3 of the specification: one instructor qualified for course 1 only and one
  student who needs course 2. A student list whose course is none of 1, 2, 3. The
  instructors and students of scenario 1 with other \<^verbatim>\<open>id\<close> fields.
\<close>

definition scenario3_instructors :: "instructor list" where
  "scenario3_instructors = [\<lparr>instructor_id = 1, qualifications = [1]\<rparr>]"

definition scenario3_students :: "student list" where
  "scenario3_students = [\<lparr>student_id = 1, course = 2\<rparr>]"

definition out_of_range_students :: "student list" where
  "out_of_range_students = [\<lparr>student_id = 1, course = 4\<rparr>]"

definition renumbered_instructors :: "instructor list" where
  "renumbered_instructors = map (\<lambda>r. r\<lparr>instructor_id := 42\<rparr>) scenario_instructors"

definition renumbered_students :: "student list" where
  "renumbered_students = map (\<lambda>r. r\<lparr>student_id := 17\<rparr>) scenario_students"

section \<open>The loops of the builder in closed form\<close>

lemma fold_update_inner:
  "fold (\<lambda>j x. x((i, j) \<mapsto> f i j)) js x0 k =
     (if fst k = i \<and> snd k \<in> set js then Some (f i (snd k)) else x0 k)"
  by (induction js arbitrary: x0) (auto simp: prod_eq_iff)

lemma fold_update_outer:
  "fold (\<lambda>i x. fold (\<lambda>j x. x((i, j) \<mapsto> f i j)) js x) is x0 k =
     (if fst k \<in> set is \<and> snd k \<in> set js then Some (f (fst k) (snd k)) else x0 k)"
  by (induction "is" arbitrary: x0) (auto simp: fold_update_inner)

lemma decision_variables_lookup:
  "decision_variables is js (a, b) =
     (if a \<in> set is \<and> b \<in> set js then Some (LpVariable (a, b) LpBinary) else None)"
  by (simp add: decision_variables_def fold_update_outer)

lemma decision_variables_item:
  "a \<in> set is \<Longrightarrow> b \<in> set js \<Longrightarrow>
     item (decision_variables is js) (a, b) = LpVariable (a, b) LpBinary"
  by (simp add: item_def decision_variables_lookup)

lemma fold_appends:
  assumes "\<And>a m. F a m = m\<lparr>constraints := constraints m @ G a\<rparr>"
  shows "fold F as m = m\<lparr>constraints := constraints m @ concat (map G as)\<rparr>"
  by (induction as arbitrary: m) (simp_all add: assms)

lemma fold_add_constraint:
  "fold (\<lambda>i. add_constraint (f i)) is m = m\<lparr>constraints := constraints m @ map f is\<rparr>"
  by (induction "is" arbitrary: m) (simp_all add: add_constraint_def)

lemma fold_courses:
  "fold (\<lambda>c m. if P c then add_constraint g m else m) cs m =
     m\<lparr>constraints := constraints m @ concat (map (\<lambda>c. if P c then [g] else []) cs)\<rparr>"
  by (rule fold_appends) (simp add: add_constraint_def)

lemma fold_compatibility:
  "fold (\<lambda>i. fold (\<lambda>j. fold (\<lambda>c m.
       if c \<notin> set (qualifications (instructors ! i)) \<and> c = course (students ! j)
       then add_constraint (eq_constraint (lpSum [item x (i, j)]) 0) m
       else m) [1, 2, 3]) [0..<length students]) [0..<length instructors] m =
   m\<lparr>constraints := constraints m @ compatibility_constraints instructors students x\<rparr>"
  unfolding compatibility_constraints_def
  by (rule fold_appends, rule fold_appends, rule fold_courses)

lemma create_optimization_model_eq:
  "create_optimization_model instructors students aircraft_count =
    (let n = length instructors; m = length students;
         x = decision_variables [0..<n] [0..<m]
     in (\<lparr>direction = LpMaximize,
          objective = lpSum (all_variables x n m),
          constraints =
            map (\<lambda>i. le_constraint (lpSum (map (\<lambda>j. item x (i, j)) [0..<m])) 1) [0..<n] @
            map (\<lambda>j. le_constraint (lpSum (map (\<lambda>i. item x (i, j)) [0..<n])) 1) [0..<m] @
            compatibility_constraints instructors students x @
            [le_constraint (lpSum (all_variables x n m)) aircraft_count]\<rparr>, x))"
  unfolding create_optimization_model_def Let_def fold_compatibility fold_add_constraint
  by (simp add: LpProblem_def set_objective_def add_constraint_def all_variables_def)

lemma item_row:
  "i < n \<Longrightarrow> map (\<lambda>j. item (decision_variables [0..<n] [0..<m]) (i, j)) [0..<m] =
     map (binary_var i) [0..<m]"
  by (simp add: decision_variables_item binary_var_def)

lemma item_col:
  "j < m \<Longrightarrow> map (\<lambda>i. item (decision_variables [0..<n] [0..<m]) (i, j)) [0..<n] =
     map (\<lambda>i. binary_var i j) [0..<n]"
  by (simp add: decision_variables_item binary_var_def)

lemma all_variables_eq:
  "all_variables (decision_variables [0..<n] [0..<m]) n m =
     concat (map (\<lambda>i. map (binary_var i) [0..<m]) [0..<n])"
  unfolding all_variables_def
  by (rule arg_cong [where f = concat], rule map_cong) (simp_all add: item_row)

lemma compatibility_constraints_eq:
  "compatibility_constraints instructors students
      (decision_variables [0..<length instructors] [0..<length students]) =
     concat (map (\<lambda>i. concat (map (\<lambda>j. concat (map (\<lambda>c.
        if c \<notin> set (qualifications (instructors ! i)) \<and> c = course (students ! j)
        then [eq_constraint (lpSum [binary_var i j]) 0] else []) [1, 2, 3]))
      [0..<length students])) [0..<length instructors])"
  unfolding compatibility_constraints_def
  apply (rule arg_cong [where f = concat], rule map_cong, simp)
  apply (rule arg_cong [where f = concat], rule map_cong, simp)
  apply (simp add: decision_variables_item binary_var_def)
  done

lemma compatibility_constraints_set:
  "set (compatibility_constraints instructors students
      (decision_variables [0..<length instructors] [0..<length students])) =
   {eq_constraint (lpSum [binary_var i j]) 0 | i j.
      i < length instructors \<and> j < length students \<and>
      course (students ! j) \<in> {1, 2, 3} \<and>
      course (students ! j) \<notin> set (qualifications (instructors ! i))}"
  unfolding compatibility_constraints_eq
  by (fastforce split: if_splits)

lemma affine_value_lpSum:
  "affine_value vals (lpSum vs) = sum_list (map (pulp_value vals) vs)"
  by (simp add: affine_value_def lpSum_def comp_def)

lemma pulp_value_binary_var [simp]: "pulp_value vals (binary_var i j) = vals (i, j)"
  by (simp add: pulp_value_def binary_var_def LpVariable_def)

lemma value_row:
  "affine_value vals (lpSum (map (binary_var i) [0..<m])) = (\<Sum>j<m. vals (i, j))"
  by (simp add: affine_value_lpSum comp_def interv_sum_list_conv_sum_set_nat atLeast0LessThan)

lemma value_col:
  "affine_value vals (lpSum (map (\<lambda>i. binary_var i j) [0..<n])) = (\<Sum>i<n. vals (i, j))"
  by (simp add: affine_value_lpSum comp_def interv_sum_list_conv_sum_set_nat atLeast0LessThan)

lemma sum_list_concat_map:
  "sum_list (concat (map f xs)) = (\<Sum>x\<leftarrow>xs. sum_list (f x) :: int)"
  by (induction xs) simp_all

lemma value_all:
  "affine_value vals (lpSum (concat (map (\<lambda>i. map (binary_var i) [0..<m]) [0..<n]))) =
     (\<Sum>i<n. \<Sum>j<m. vals (i, j))"
  by (simp add: affine_value_lpSum map_concat sum_list_concat_map comp_def
      interv_sum_list_conv_sum_set_nat atLeast0LessThan)

lemma holds_le [simp]: "holds vals (le_constraint e b) \<longleftrightarrow> affine_value vals e \<le> b"
  by (simp add: holds_def le_constraint_def)

lemma holds_eq [simp]: "holds vals (eq_constraint e b) \<longleftrightarrow> affine_value vals e = b"
  by (simp add: holds_def eq_constraint_def)

lemma lhs_le [simp]: "lhs (le_constraint e b) = e"
  by (simp add: le_constraint_def)

lemma lhs_eq [simp]: "lhs (eq_constraint e b) = e"
  by (simp add: eq_constraint_def)

lemma map_fst_lpSum [simp]: "map fst (lpSum vs) = vs"
  by (simp add: lpSum_def comp_def)

lemma in_category_binary_var [simp]:
  "in_category vals (binary_var i j) \<longleftrightarrow> vals (i, j) = 0 \<or> vals (i, j) = 1"
  by (simp add: in_category_def binary_var_def LpVariable_def pulp_value_def)

lemma value_single [simp]: "affine_value vals (lpSum [binary_var i j]) = vals (i, j)"
  by (simp add: affine_value_lpSum)

lemma built_model_objective:
  "objective (built_model instructors students aircraft_count) =
     lpSum (concat (map (\<lambda>i. map (binary_var i) [0..<length students]) [0..<length instructors]))"
  by (simp add: built_model_def create_optimization_model_eq Let_def all_variables_eq)

lemma built_model_direction:
  "direction (built_model instructors students aircraft_count) = LpMaximize"
  by (simp add: built_model_def create_optimization_model_eq Let_def)

lemma built_model_constraints:
  "constraints (built_model instructors students aircraft_count) =
     map (\<lambda>i. le_constraint (lpSum (map (binary_var i) [0..<length students])) 1)
       [0..<length instructors] @
     map (\<lambda>j. le_constraint (lpSum (map (\<lambda>i. binary_var i j) [0..<length instructors])) 1)
       [0..<length students] @
     compatibility_constraints instructors students
       (decision_variables [0..<length instructors] [0..<length students]) @
     [le_constraint
        (lpSum (concat (map (\<lambda>i. map (binary_var i) [0..<length students]) [0..<length instructors])))
        aircraft_count]"
  by (simp add: built_model_def create_optimization_model_eq Let_def all_variables_eq
      item_row item_col)

lemma compatibility_hold_iff:
  "list_all (holds vals) (compatibility_constraints instructors students
      (decision_variables [0..<length instructors] [0..<length students])) \<longleftrightarrow>
     (\<forall>i<length instructors. \<forall>j<length students.
        course (students ! j) \<in> {1, 2, 3} \<and>
        course (students ! j) \<notin> set (qualifications (instructors ! i)) \<longrightarrow> vals (i, j) = 0)"
  (is "?L \<longleftrightarrow> ?R")
proof
  assume l: ?L
  show ?R
  proof (intro allI impI)
    fix i j
    assume ij: "i < length instructors" "j < length students"
      and c: "course (students ! j) \<in> {1, 2, 3} \<and>
        course (students ! j) \<notin> set (qualifications (instructors ! i))"
    then have "eq_constraint (lpSum [binary_var i j]) 0 \<in>
        set (compatibility_constraints instructors students
          (decision_variables [0..<length instructors] [0..<length students]))"
      unfolding compatibility_constraints_set by blast
    with l have "holds vals (eq_constraint (lpSum [binary_var i j]) 0)"
      unfolding list_all_iff by blast
    then show "vals (i, j) = 0" by simp
  qed
next
  assume r: ?R
  show ?L
    unfolding list_all_iff
  proof
    fix c
    assume "c \<in> set (compatibility_constraints instructors students
          (decision_variables [0..<length instructors] [0..<length students]))"
    then obtain i j where ij: "i < length instructors" "j < length students"
      and cond: "course (students ! j) \<in> {1, 2, 3}"
        "course (students ! j) \<notin> set (qualifications (instructors ! i))"
      and c: "c = eq_constraint (lpSum [binary_var i j]) 0"
      unfolding compatibility_constraints_set by blast
    from r ij cond have "vals (i, j) = 0" by blast
    with c show "holds vals c" by simp
  qed
qed

lemma constraints_hold_iff:
  "list_all (holds vals) (constraints (built_model instructors students aircraft_count)) \<longleftrightarrow>
     (\<forall>i<length instructors. (\<Sum>j<length students. vals (i, j)) \<le> 1) \<and>
     (\<forall>j<length students. (\<Sum>i<length instructors. vals (i, j)) \<le> 1) \<and>
     (\<forall>i<length instructors. \<forall>j<length students.
        course (students ! j) \<in> {1, 2, 3} \<and>
        course (students ! j) \<notin> set (qualifications (instructors ! i)) \<longrightarrow> vals (i, j) = 0) \<and>
     (\<Sum>i<length instructors. \<Sum>j<length students. vals (i, j)) \<le> aircraft_count"
proof -
  have rows: "list_all (holds vals)
      (map (\<lambda>i. le_constraint (lpSum (map (binary_var i) [0..<length students])) 1)
        [0..<length instructors]) \<longleftrightarrow>
      (\<forall>i<length instructors. (\<Sum>j<length students. vals (i, j)) \<le> 1)"
    by (auto simp: list_all_iff value_row)
  have cols: "list_all (holds vals)
      (map (\<lambda>j. le_constraint (lpSum (map (\<lambda>i. binary_var i j) [0..<length instructors])) 1)
        [0..<length students]) \<longleftrightarrow>
      (\<forall>j<length students. (\<Sum>i<length instructors. vals (i, j)) \<le> 1)"
    by (auto simp: list_all_iff value_col)
  have total: "list_all (holds vals) [le_constraint
        (lpSum (concat (map (\<lambda>i. map (binary_var i) [0..<length students]) [0..<length instructors])))
        aircraft_count] \<longleftrightarrow>
      (\<Sum>i<length instructors. \<Sum>j<length students. vals (i, j)) \<le> aircraft_count"
    by (simp add: value_all)
  show ?thesis
    unfolding built_model_constraints list_all_append rows cols total compatibility_hold_iff ..
qed

lemma objective_variables:
  "v \<in> set (concat (map (\<lambda>i. map (binary_var i) [0..<m]) [0..<n])) \<longleftrightarrow>
     (\<exists>i<n. \<exists>j<m. v = binary_var i j)"
proof
  assume "v \<in> set (concat (map (\<lambda>i. map (binary_var i) [0..<m]) [0..<n]))"
  then obtain i j where "i < n" "j < m" "v = binary_var i j"
    by auto
  then show "\<exists>i<n. \<exists>j<m. v = binary_var i j"
    by blast
next
  assume "\<exists>i<n. \<exists>j<m. v = binary_var i j"
  then obtain i j where "i < n" "j < m" "v = binary_var i j"
    by blast
  then have "i \<in> {0..<n}" and "v \<in> binary_var i ` {0..<m}"
    by simp_all
  then have "v \<in> (\<Union>i\<in>{0..<n}. binary_var i ` {0..<m})"
    by (rule UN_I)
  then show "v \<in> set (concat (map (\<lambda>i. map (binary_var i) [0..<m]) [0..<n]))"
    by simp
qed

lemma constraint_variables:
  assumes "c \<in> set (constraints (built_model instructors students aircraft_count))"
    and "v \<in> set (map fst (lhs c))"
  shows "\<exists>i<length instructors. \<exists>j<length students. v = binary_var i j"
proof -
  let ?n = "length instructors" and ?m = "length students"
  from assms(1) consider
      (row) i where "i < ?n" "c = le_constraint (lpSum (map (binary_var i) [0..<?m])) 1"
    | (col) j where "j < ?m" "c = le_constraint (lpSum (map (\<lambda>i. binary_var i j) [0..<?n])) 1"
    | (compat) i j where "i < ?n" "j < ?m" "c = eq_constraint (lpSum [binary_var i j]) 0"
    | (total) "c = le_constraint
        (lpSum (concat (map (\<lambda>i. map (binary_var i) [0..<?m]) [0..<?n]))) aircraft_count"
    unfolding built_model_constraints by (auto simp: compatibility_constraints_set)
  then show ?thesis
  proof cases
    case row
    with assms(2) obtain j where "j < ?m" "v = binary_var i j" by auto
    with row show ?thesis by blast
  next
    case col
    with assms(2) obtain i where "i < ?n" "v = binary_var i j" by auto
    with col show ?thesis by blast
  next
    case compat
    with assms(2) have "v = binary_var i j" by simp
    with compat show ?thesis by blast
  next
    case total
    with assms(2) show ?thesis by (simp only: lhs_le map_fst_lpSum objective_variables)
  qed
qed

lemma variables_subset:
  assumes "v \<in> set (problem_variables (built_model instructors students aircraft_count))"
  shows "\<exists>i<length instructors. \<exists>j<length students. v = binary_var i j"
proof -
  from assms consider
      "v \<in> set (map fst (objective (built_model instructors students aircraft_count)))"
    | c where "c \<in> set (constraints (built_model instructors students aircraft_count))"
        "v \<in> set (map fst (lhs c))"
    unfolding problem_variables_def by auto
  then show ?thesis
  proof cases
    case 1
    then show ?thesis
      by (simp only: built_model_objective map_fst_lpSum objective_variables)
  next
    case 2
    then show ?thesis by (rule constraint_variables)
  qed
qed

lemma variables_member:
  "i < length instructors \<Longrightarrow> j < length students \<Longrightarrow>
     binary_var i j \<in> set (problem_variables (built_model instructors students aircraft_count))"
proof -
  assume "i < length instructors" "j < length students"
  then have "binary_var i j \<in> set (concat (map (\<lambda>i. map (binary_var i) [0..<length students])
      [0..<length instructors]))"
    unfolding objective_variables by blast
  then show ?thesis
    unfolding problem_variables_def built_model_objective by simp
qed

lemma variables_in_category_iff:
  "list_all (in_category vals) (problem_variables (built_model instructors students aircraft_count)) \<longleftrightarrow>
     (\<forall>i<length instructors. \<forall>j<length students. vals (i, j) = 0 \<or> vals (i, j) = 1)"
  unfolding list_all_iff
proof (intro iffI allI impI ballI)
  fix i j
  assume a: "\<forall>v\<in>set (problem_variables (built_model instructors students aircraft_count)).
      in_category vals v" and "i < length instructors" "j < length students"
  then have "in_category vals (binary_var i j)"
    using variables_member by blast
  then show "vals (i, j) = 0 \<or> vals (i, j) = 1" by simp
next
  fix v
  assume a: "\<forall>i<length instructors. \<forall>j<length students. vals (i, j) = 0 \<or> vals (i, j) = 1"
    and "v \<in> set (problem_variables (built_model instructors students aircraft_count))"
  then obtain i j where "i < length instructors" "j < length students" "v = binary_var i j"
    using variables_subset by blast
  with a show "in_category vals v" by simp
qed

lemma feasible_iff:
  "feasible (built_model instructors students aircraft_count) vals \<longleftrightarrow>
     (\<forall>i<length instructors. \<forall>j<length students. vals (i, j) = 0 \<or> vals (i, j) = 1) \<and>
     (\<forall>i<length instructors. (\<Sum>j<length students. vals (i, j)) \<le> 1) \<and>
     (\<forall>j<length students. (\<Sum>i<length instructors. vals (i, j)) \<le> 1) \<and>
     (\<forall>i<length instructors. \<forall>j<length students.
        course (students ! j) \<in> {1, 2, 3} \<and>
        course (students ! j) \<notin> set (qualifications (instructors ! i)) \<longrightarrow> vals (i, j) = 0) \<and>
     (\<Sum>i<length instructors. \<Sum>j<length students. vals (i, j)) \<le> aircraft_count"
  unfolding feasible_def variables_in_category_iff constraints_hold_iff ..

lemma sum_binary_card:
  fixes f :: "'a \<Rightarrow> int"
  assumes "finite S" and "\<forall>x\<in>S. f x = 0 \<or> f x = 1"
  shows "sum f S = int (card {x \<in> S. f x = 1})"
  using assms
proof (induction S rule: finite_induct)
  case empty
  then show ?case by simp
next
  case (insert x F)
  then have ih: "sum f F = int (card {y \<in> F. f y = 1})"
    by simp
  have fin: "finite {y \<in> F. f y = 1}"
    using insert.hyps(1) by simp
  have notin: "x \<notin> {y \<in> F. f y = 1}"
    using insert.hyps(2) by simp
  from insert.prems consider "f x = 0" | "f x = 1"
    by auto
  then show ?case
  proof cases
    case 1
    then have "{y \<in> insert x F. f y = 1} = {y \<in> F. f y = 1}"
      by auto
    with 1 ih insert.hyps show ?thesis by simp
  next
    case 2
    then have "{y \<in> insert x F. f y = 1} = insert x {y \<in> F. f y = 1}"
      by auto
    with 2 ih insert.hyps fin notin show ?thesis by simp
  qed
qed

lemma finite_assigned_pairs: "finite (assigned_pairs vals n m)"
proof -
  have "assigned_pairs vals n m \<subseteq> {..<n} \<times> {..<m}"
    by (auto simp: assigned_pairs_def)
  then show ?thesis
    by (rule finite_subset) simp
qed

lemma total_eq_card:
  fixes vals :: valuation
  assumes "\<forall>i<n. \<forall>j<m. vals (i, j) = 0 \<or> vals (i, j) = 1"
  shows "(\<Sum>i<n. \<Sum>j<m. vals (i, j)) = int (card (assigned_pairs vals n m))"
proof -
  have "(\<Sum>i<n. \<Sum>j<m. vals (i, j)) = sum vals ({..<n} \<times> {..<m})"
    by (simp add: sum.cartesian_product)
  also have "\<dots> = int (card {p \<in> {..<n} \<times> {..<m}. vals p = 1})"
    using assms by (intro sum_binary_card) auto
  also have "{p \<in> {..<n} \<times> {..<m}. vals p = 1} = assigned_pairs vals n m"
    by (auto simp: assigned_pairs_def)
  finally show ?thesis .
qed

lemma row_eq_card:
  fixes vals :: valuation
  assumes "\<forall>j<m. vals (i, j) = 0 \<or> vals (i, j) = 1"
  shows "(\<Sum>j<m. vals (i, j)) = int (card {j. j < m \<and> vals (i, j) = 1})"
proof -
  have "(\<Sum>j<m. vals (i, j)) = int (card {j \<in> {..<m}. vals (i, j) = 1})"
    using assms by (intro sum_binary_card) auto
  then show ?thesis by simp
qed

lemma col_eq_card:
  fixes vals :: valuation
  assumes "\<forall>i<n. vals (i, j) = 0 \<or> vals (i, j) = 1"
  shows "(\<Sum>i<n. vals (i, j)) = int (card {i. i < n \<and> vals (i, j) = 1})"
proof -
  have "(\<Sum>i<n. vals (i, j)) = int (card {i \<in> {..<n}. vals (i, j) = 1})"
    using assms by (intro sum_binary_card) auto
  then show ?thesis by simp
qed

lemma total_le_rows:
  fixes vals :: valuation
  assumes "\<forall>i<n. (\<Sum>j<m. vals (i, j)) \<le> 1"
  shows "(\<Sum>i<n. \<Sum>j<m. vals (i, j)) \<le> int n"
proof -
  have "(\<Sum>i<n. \<Sum>j<m. vals (i, j)) \<le> (\<Sum>i<n. 1)"
    using assms by (intro sum_mono) simp
  then show ?thesis by simp
qed

lemma total_le_cols:
  fixes vals :: valuation
  assumes "\<forall>j<m. (\<Sum>i<n. vals (i, j)) \<le> 1"
  shows "(\<Sum>i<n. \<Sum>j<m. vals (i, j)) \<le> int m"
proof -
  have "(\<Sum>i<n. \<Sum>j<m. vals (i, j)) = (\<Sum>j<m. \<Sum>i<n. vals (i, j))"
    by (rule sum.swap)
  also have "\<dots> \<le> (\<Sum>j<m. 1)"
    using assms by (intro sum_mono) simp
  finally show ?thesis by simp
qed

lemma inner_loop:
  "fold (\<lambda>j (results, assigned). if P j then (results @ [R j], assigned + 1) else (results, assigned))
      js (r0, c0) =
   (r0 @ map R (filter P js), c0 + int (length (filter P js)))"
  by (induction js arbitrary: r0 c0) auto

lemma outer_loop:
  "fold (\<lambda>i. fold (\<lambda>j (results, assigned).
       if P (i, j) then (results @ [R (i, j)], assigned + 1) else (results, assigned)) js)
      is (r0, c0) =
   (r0 @ map R (filter P (List.product is js)),
    c0 + int (length (filter P (List.product is js))))"
proof (induction "is" arbitrary: r0 c0)
  case Nil
  show ?case by simp
next
  case (Cons i "is")
  have inner: "fold (\<lambda>j (results, assigned).
       if P (i, j) then (results @ [R (i, j)], assigned + 1) else (results, assigned)) js (r0, c0) =
     (r0 @ map (\<lambda>j. R (i, j)) (filter (\<lambda>j. P (i, j)) js),
      c0 + int (length (filter (\<lambda>j. P (i, j)) js)))"
    by (rule inner_loop)
  have f: "filter P (map (Pair i) js) = map (Pair i) (filter (\<lambda>j. P (i, j)) js)"
    by (simp add: filter_map comp_def)
  show ?case
    by (simp add: inner Cons.IH f comp_def)
qed

lemma solve_and_display_results_eq:
  "solve_and_display_results solve model x instructors students =
     (let ps = filter (\<lambda>p. pulp_value (solve model) (item x p) = 1)
                 (List.product [0..<length instructors] [0..<length students])
      in (map (result_row_of instructors students) ps, int (length ps),
          int (length students) - int (length ps)))"
proof -
  have "fold (\<lambda>i. fold (\<lambda>j (results, assigned_students).
            if pulp_value (solve model) (item x (i, j)) = 1
            then (results @ [result_row_of instructors students (i, j)], assigned_students + 1)
            else (results, assigned_students)) [0..<length students])
          [0..<length instructors] ([], 0) =
        ([] @ map (result_row_of instructors students)
           (filter (\<lambda>p. pulp_value (solve model) (item x p) = 1)
              (List.product [0..<length instructors] [0..<length students])),
         0 + int (length (filter (\<lambda>p. pulp_value (solve model) (item x p) = 1)
              (List.product [0..<length instructors] [0..<length students]))))"
    by (rule outer_loop [where P = "\<lambda>p. pulp_value (solve model) (item x p) = 1"])
  then show ?thesis
    unfolding result_row_of_def fst_conv snd_conv
    by (simp add: solve_and_display_results_def Let_def)
qed

lemma filter_assigned:
  "filter (\<lambda>p. pulp_value vals (item (decision_variables [0..<n] [0..<m]) p) = 1)
      (List.product [0..<n] [0..<m]) = assigned_list vals n m"
  unfolding assigned_list_def
  by (rule filter_cong) (auto simp: decision_variables_item pulp_value_def LpVariable_def)

lemma solve_instance_eq:
  "solve_instance solve instructors students aircraft_count =
     (let ps = assigned_list (solve (built_model instructors students aircraft_count))
                 (length instructors) (length students)
      in (map (result_row_of instructors students) ps, int (length ps),
          int (length students) - int (length ps)))"
proof -
  have x: "snd (create_optimization_model instructors students aircraft_count) =
      decision_variables [0..<length instructors] [0..<length students]"
    by (simp add: create_optimization_model_eq Let_def)
  show ?thesis
    unfolding solve_instance_def built_model_def
    by (simp add: split_def solve_and_display_results_eq x filter_assigned)
qed

lemma set_assigned_list: "set (assigned_list vals n m) = assigned_pairs vals n m"
  by (auto simp: assigned_list_def assigned_pairs_def)

lemma distinct_assigned_list: "distinct (assigned_list vals n m)"
  by (simp add: assigned_list_def distinct_product)

lemma length_assigned_list: "length (assigned_list vals n m) = card (assigned_pairs vals n m)"
  using distinct_card [OF distinct_assigned_list, of vals n m] by (simp add: set_assigned_list)

section \<open>Objective, optimum and assigned count\<close>

lemma objective_value:
  "affine_value vals (objective (built_model instructors students aircraft_count)) =
     (\<Sum>i<length instructors. \<Sum>j<length students. vals (i, j))"
  by (simp only: built_model_objective value_all)

lemma feasible_objective_card:
  assumes "feasible (built_model instructors students aircraft_count) vals"
  shows "affine_value vals (objective (built_model instructors students aircraft_count)) =
     int (card (assigned_pairs vals (length instructors) (length students)))"
proof -
  from assms have "\<forall>i<length instructors. \<forall>j<length students. vals (i, j) = 0 \<or> vals (i, j) = 1"
    unfolding feasible_iff by blast
  then show ?thesis
    unfolding objective_value by (rule total_eq_card)
qed

lemma assigned_count_card:
  "fst (snd (solve_instance solve instructors students aircraft_count)) =
     int (card (assigned_pairs (solve (built_model instructors students aircraft_count))
       (length instructors) (length students)))"
  by (simp add: solve_instance_eq Let_def length_assigned_list)

lemma optimal_iff:
  "optimal (built_model instructors students aircraft_count) vals \<longleftrightarrow>
     feasible (built_model instructors students aircraft_count) vals \<and>
     (\<forall>vals'. feasible (built_model instructors students aircraft_count) vals' \<longrightarrow>
        card (assigned_pairs vals' (length instructors) (length students)) \<le>
        card (assigned_pairs vals (length instructors) (length students)))"
  (is "?L \<longleftrightarrow> ?F \<and> ?R")
proof
  assume l: ?L
  then have f: ?F by (simp add: optimal_def)
  have ?R
  proof (intro allI impI)
    fix vals'
    assume f': "feasible (built_model instructors students aircraft_count) vals'"
    with l have "affine_value vals' (objective (built_model instructors students aircraft_count))
        \<le> affine_value vals (objective (built_model instructors students aircraft_count))"
      by (simp add: optimal_def better_def built_model_direction)
    then show "card (assigned_pairs vals' (length instructors) (length students)) \<le>
        card (assigned_pairs vals (length instructors) (length students))"
      by (simp add: feasible_objective_card [OF f] feasible_objective_card [OF f'])
  qed
  with f show "?F \<and> ?R" ..
next
  assume r: "?F \<and> ?R"
  then have f: ?F ..
  show ?L
    unfolding optimal_def
  proof (intro conjI allI impI)
    show ?F by (rule f)
  next
    fix vals'
    assume f': "feasible (built_model instructors students aircraft_count) vals'"
    with r have "card (assigned_pairs vals' (length instructors) (length students)) \<le>
        card (assigned_pairs vals (length instructors) (length students))"
      by blast
    then show "better (direction (built_model instructors students aircraft_count))
        (affine_value vals (objective (built_model instructors students aircraft_count)))
        (affine_value vals' (objective (built_model instructors students aircraft_count)))"
      by (simp add: better_def built_model_direction feasible_objective_card [OF f]
          feasible_objective_card [OF f'])
  qed
qed

lemma feasible_card_bounds:
  assumes "feasible (built_model instructors students aircraft_count) vals"
  shows "int (card (assigned_pairs vals (length instructors) (length students))) \<le> aircraft_count"
    and "card (assigned_pairs vals (length instructors) (length students)) \<le> length instructors"
    and "card (assigned_pairs vals (length instructors) (length students)) \<le> length students"
proof -
  let ?n = "length instructors" and ?m = "length students"
  from assms have bin: "\<forall>i<?n. \<forall>j<?m. vals (i, j) = 0 \<or> vals (i, j) = 1"
    and rows: "\<forall>i<?n. (\<Sum>j<?m. vals (i, j)) \<le> 1"
    and cols: "\<forall>j<?m. (\<Sum>i<?n. vals (i, j)) \<le> 1"
    and total: "(\<Sum>i<?n. \<Sum>j<?m. vals (i, j)) \<le> aircraft_count"
    unfolding feasible_iff by blast+
  have eq: "(\<Sum>i<?n. \<Sum>j<?m. vals (i, j)) = int (card (assigned_pairs vals ?n ?m))"
    using bin by (rule total_eq_card)
  from total show "int (card (assigned_pairs vals ?n ?m)) \<le> aircraft_count"
    by (simp only: eq)
  from total_le_rows [OF rows] show "card (assigned_pairs vals ?n ?m) \<le> ?n"
    by (simp add: eq)
  from total_le_cols [OF cols] show "card (assigned_pairs vals ?n ?m) \<le> ?m"
    by (simp add: eq)
qed

lemma optimal_if_count_reaches_bound:
  assumes "feasible (built_model instructors students aircraft_count)
      (solve (built_model instructors students aircraft_count))"
    and "min (int (length instructors)) (min (int (length students)) aircraft_count) \<le>
      fst (snd (solve_instance solve instructors students aircraft_count))"
  shows "optimal (built_model instructors students aircraft_count)
      (solve (built_model instructors students aircraft_count))"
  unfolding optimal_iff
proof (intro conjI allI impI)
  show "feasible (built_model instructors students aircraft_count)
      (solve (built_model instructors students aircraft_count))"
    by (rule assms(1))
next
  fix vals'
  assume "feasible (built_model instructors students aircraft_count) vals'"
  from feasible_card_bounds [OF this] assms(2)
  show "card (assigned_pairs vals' (length instructors) (length students)) \<le>
      card (assigned_pairs (solve (built_model instructors students aircraft_count))
        (length instructors) (length students))"
    unfolding assigned_count_card by linarith
qed

section \<open>Solutions of the problem and valid assignments\<close>

lemma feasible_rows_unique:
  assumes "feasible (built_model instructors students aircraft_count) vals"
  shows "card {j. (i, j) \<in> assigned_pairs vals (length instructors) (length students)} \<le> 1"
proof (cases "i < length instructors")
  case True
  let ?n = "length instructors" and ?m = "length students"
  from assms True have bin: "\<forall>j<?m. vals (i, j) = 0 \<or> vals (i, j) = 1"
    and row: "(\<Sum>j<?m. vals (i, j)) \<le> 1"
    unfolding feasible_iff by blast+
  have "{j. (i, j) \<in> assigned_pairs vals ?n ?m} = {j. j < ?m \<and> vals (i, j) = 1}"
    using True by (auto simp: assigned_pairs_def)
  with row show ?thesis
    by (simp add: row_eq_card [OF bin])
next
  case False
  then have "{j. (i, j) \<in> assigned_pairs vals (length instructors) (length students)} = {}"
    by (auto simp: assigned_pairs_def)
  then show ?thesis by simp
qed

lemma feasible_cols_unique:
  assumes "feasible (built_model instructors students aircraft_count) vals"
  shows "card {i. (i, j) \<in> assigned_pairs vals (length instructors) (length students)} \<le> 1"
proof (cases "j < length students")
  case True
  let ?n = "length instructors" and ?m = "length students"
  from assms True have bin: "\<forall>i<?n. vals (i, j) = 0 \<or> vals (i, j) = 1"
    and col: "(\<Sum>i<?n. vals (i, j)) \<le> 1"
    unfolding feasible_iff by blast+
  have "{i. (i, j) \<in> assigned_pairs vals ?n ?m} = {i. i < ?n \<and> vals (i, j) = 1}"
    using True by (auto simp: assigned_pairs_def)
  with col show ?thesis
    by (simp add: col_eq_card [OF bin])
next
  case False
  then have "{i. (i, j) \<in> assigned_pairs vals (length instructors) (length students)} = {}"
    by (auto simp: assigned_pairs_def)
  then show ?thesis by simp
qed

lemma feasible_compatible:
  assumes "feasible (built_model instructors students aircraft_count) vals"
    and "\<forall>s\<in>set students. course s \<in> {1, 2, 3}"
    and "(i, j) \<in> assigned_pairs vals (length instructors) (length students)"
  shows "course (students ! j) \<in> set (qualifications (instructors ! i))"
proof (rule ccontr)
  assume n: "course (students ! j) \<notin> set (qualifications (instructors ! i))"
  from assms(3) have ij: "i < length instructors" "j < length students" and v: "vals (i, j) = 1"
    by (auto simp: assigned_pairs_def)
  from ij(2) assms(2) have "course (students ! j) \<in> {1, 2, 3}"
    using nth_mem by blast
  with assms(1) ij n have "vals (i, j) = 0"
    unfolding feasible_iff by blast
  with v show False by simp
qed









section \<open>Comparing problems\<close>

lemma feasible_mono_capacity:
  assumes "feasible (built_model instructors students aircraft_count) vals"
    and "aircraft_count \<le> aircraft_count'"
  shows "feasible (built_model instructors students aircraft_count') vals"
  using assms unfolding feasible_iff by (elim conjE, intro conjI) simp_all

lemma feasible_mono_qualifications:
  assumes "feasible (built_model instructors' students aircraft_count) vals"
    and len: "length instructors' = length instructors"
    and sub: "\<forall>i<length instructors.
        set (qualifications (instructors' ! i)) \<subseteq> set (qualifications (instructors ! i))"
  shows "feasible (built_model instructors students aircraft_count) vals"
proof -
  from assms(1) have
    bin: "\<forall>i<length instructors. \<forall>j<length students. vals (i, j) = 0 \<or> vals (i, j) = 1"
    and rows: "\<forall>i<length instructors. (\<Sum>j<length students. vals (i, j)) \<le> 1"
    and cols: "\<forall>j<length students. (\<Sum>i<length instructors. vals (i, j)) \<le> 1"
    and compat: "\<forall>i<length instructors. \<forall>j<length students.
        course (students ! j) \<in> {1, 2, 3} \<and>
        course (students ! j) \<notin> set (qualifications (instructors' ! i)) \<longrightarrow> vals (i, j) = 0"
    and total: "(\<Sum>i<length instructors. \<Sum>j<length students. vals (i, j)) \<le> aircraft_count"
    unfolding feasible_iff len by blast+
  from compat sub have "\<forall>i<length instructors. \<forall>j<length students.
        course (students ! j) \<in> {1, 2, 3} \<and>
        course (students ! j) \<notin> set (qualifications (instructors ! i)) \<longrightarrow> vals (i, j) = 0"
    by blast
  with bin rows cols total show ?thesis
    unfolding feasible_iff by blast
qed

lemma remove_qualification_length:
  "length (remove_qualification instructors k c) = length instructors"
  by (simp add: remove_qualification_def)

lemma remove_qualification_subset:
  "i < length instructors \<Longrightarrow>
     set (qualifications (remove_qualification instructors k c ! i))
       \<subseteq> set (qualifications (instructors ! i))"
  by (cases "i = k") (auto simp: remove_qualification_def)

lemma optimal_count_le:
  assumes "feasible (built_model instructors students aircraft_count) vals"
    and "optimal (built_model instructors students aircraft_count) vals'"
  shows "card (assigned_pairs vals (length instructors) (length students)) \<le>
      card (assigned_pairs vals' (length instructors) (length students))"
  using assms unfolding optimal_iff by blast

section \<open>Independence of the id fields\<close>

lemma map_eq_nth:
  assumes "map f xs = map f ys" and "i < length ys"
  shows "f (xs ! i) = f (ys ! i)"
proof -
  from assms(1) have len: "length xs = length ys"
    by (rule map_eq_imp_length_eq)
  from assms(1) have "map f xs ! i = map f ys ! i" by simp
  with assms(2) len show ?thesis by simp
qed

lemma compatibility_constraints_fields:
  assumes "map qualifications instructors' = map qualifications instructors"
    and "map course students' = map course students"
  shows "compatibility_constraints instructors' students' x =
      compatibility_constraints instructors students x"
proof -
  from assms have len: "length instructors' = length instructors" "length students' = length students"
    by (auto dest: map_eq_imp_length_eq)
  have q: "qualifications (instructors' ! i) = qualifications (instructors ! i)"
    if "i < length instructors" for i
    using assms(1) that by (rule map_eq_nth)
  have c: "course (students' ! j) = course (students ! j)" if "j < length students" for j
    using assms(2) that by (rule map_eq_nth)
  show ?thesis
    unfolding compatibility_constraints_def len
    apply (rule arg_cong [where f = concat], rule map_cong, rule refl)
    apply (rule arg_cong [where f = concat], rule map_cong, rule refl)
    apply (simp add: q c)
    done
qed

lemma create_optimization_model_fields:
  assumes "map qualifications instructors' = map qualifications instructors"
    and "map course students' = map course students"
  shows "create_optimization_model instructors' students' aircraft_count =
      create_optimization_model instructors students aircraft_count"
proof -
  from assms have len: "length instructors' = length instructors" "length students' = length students"
    by (auto dest: map_eq_imp_length_eq)
  show ?thesis
    unfolding create_optimization_model_eq Let_def len
    by (simp add: compatibility_constraints_fields [OF assms])
qed

lemma result_rows_fields:
  assumes "map qualifications instructors' = map qualifications instructors"
    and "map course students' = map course students"
  shows "map (result_row_of instructors' students')
        (assigned_list vals (length instructors) (length students)) =
      map (result_row_of instructors students)
        (assigned_list vals (length instructors) (length students))"
proof (rule map_cong [OF refl])
  fix p
  assume "p \<in> set (assigned_list vals (length instructors) (length students))"
  then have "fst p < length instructors" "snd p < length students"
    by (auto simp: assigned_list_def)
  then have "qualifications (instructors' ! fst p) = qualifications (instructors ! fst p)"
    and "course (students' ! snd p) = course (students ! snd p)"
    using assms by (auto intro: map_eq_nth)
  then show "result_row_of instructors' students' p = result_row_of instructors students p"
    by (simp add: result_row_of_def)
qed

section \<open>The Run Optimization block and an assigned count of zero\<close>

lemma run_optimization_zero:
  assumes "fst (snd (solve_instance solve instructors students aircraft_count)) = 0"
  shows "run_optimization solve instructors students aircraft_count =
      Inr (Error no_assignment_message)"
  using assms by (simp add: run_optimization_def Let_def split_def no_assignment_message_def)

lemma run_optimization_no_error:
  assumes "feasible (built_model instructors students aircraft_count)
      (solve (built_model instructors students aircraft_count))"
  shows "run_optimization solve instructors students aircraft_count \<noteq> Inl e"
proof (cases "0 < fst (snd (solve_instance solve instructors students aircraft_count))")
  case True
  from feasible_card_bounds [OF assms] True
  have "int (length instructors) \<noteq> 0" and "aircraft_count \<noteq> 0"
    unfolding assigned_count_card by auto
  with True show ?thesis
    by (simp add: run_optimization_def Let_def split_def truediv_def)
next
  case False
  then show ?thesis
    by (simp add: run_optimization_def Let_def split_def)
qed

lemma empty_instructors_count:
  "fst (snd (solve_instance solve [] students aircraft_count)) = 0"
  by (simp add: assigned_count_card assigned_pairs_def)

lemma zero_capacity_count:
  assumes "feasible (built_model instructors students 0) (solve (built_model instructors students 0))"
  shows "fst (snd (solve_instance solve instructors students 0)) = 0"
  using feasible_card_bounds(1) [OF assms] unfolding assigned_count_card by simp

lemma no_compatible_pair_count:
  assumes "feasible (built_model instructors students aircraft_count)
      (solve (built_model instructors students aircraft_count))"
    and "\<forall>s\<in>set students. course s \<in> {1, 2, 3}"
    and "\<forall>i<length instructors. \<forall>j<length students.
        course (students ! j) \<notin> set (qualifications (instructors ! i))"
  shows "fst (snd (solve_instance solve instructors students aircraft_count)) = 0"
proof -
  have "assigned_pairs (solve (built_model instructors students aircraft_count))
      (length instructors) (length students) = {}"
  proof (rule ccontr)
    assume "assigned_pairs (solve (built_model instructors students aircraft_count))
      (length instructors) (length students) \<noteq> {}"
    then obtain i j where ij: "(i, j) \<in> assigned_pairs
        (solve (built_model instructors students aircraft_count))
        (length instructors) (length students)"
      by auto
    then have "i < length instructors" "j < length students"
      by (auto simp: assigned_pairs_def)
    with assms(3) feasible_compatible [OF assms(1,2) ij] show False
      by blast
  qed
  then show ?thesis
    by (simp add: assigned_count_card)
qed

lemma count_zero_all_zero:
  assumes "feasible (built_model instructors students aircraft_count) vals"
    and "card (assigned_pairs vals (length instructors) (length students)) = 0"
    and "i < length instructors" and "j < length students"
  shows "vals (i, j) = 0"
proof -
  from assms(2) have "assigned_pairs vals (length instructors) (length students) = {}"
    using finite_assigned_pairs by simp
  with assms(3,4) have "vals (i, j) \<noteq> 1"
    by (auto simp: assigned_pairs_def)
  moreover from assms(1,3,4) have "vals (i, j) = 0 \<or> vals (i, j) = 1"
    unfolding feasible_iff by blast
  ultimately show ?thesis by simp
qed

lemma optimal_if_all_counts_zero:
  assumes "feasible (built_model instructors students aircraft_count) vals"
    and "\<And>vals'. feasible (built_model instructors students aircraft_count) vals' \<Longrightarrow>
      card (assigned_pairs vals' (length instructors) (length students)) = 0"
  shows "optimal (built_model instructors students aircraft_count) vals"
  unfolding optimal_iff using assms by simp

lemma zero_capacity_optimal:
  assumes "feasible (built_model instructors students 0) vals"
  shows "optimal (built_model instructors students 0) vals"
  using assms
proof (rule optimal_if_all_counts_zero)
  fix vals'
  assume "feasible (built_model instructors students 0) vals'"
  from feasible_card_bounds(1) [OF this]
  show "card (assigned_pairs vals' (length instructors) (length students)) = 0"
    by simp
qed

lemma no_compatible_pair_optimal:
  assumes "feasible (built_model instructors students aircraft_count) vals"
    and "\<forall>s\<in>set students. course s \<in> {1, 2, 3}"
    and "\<forall>i<length instructors. \<forall>j<length students.
        course (students ! j) \<notin> set (qualifications (instructors ! i))"
  shows "optimal (built_model instructors students aircraft_count) vals"
  using assms(1)
proof (rule optimal_if_all_counts_zero)
  fix vals'
  assume "feasible (built_model instructors students aircraft_count) vals'"
  then have "fst (snd (solve_instance (\<lambda>m. vals') instructors students aircraft_count)) = 0"
    using assms(2,3) by (intro no_compatible_pair_count) simp_all
  then show "card (assigned_pairs vals' (length instructors) (length students)) = 0"
    unfolding assigned_count_card by simp
qed

lemma zero_count_results:
  assumes "fst (snd (solve_instance solve instructors students aircraft_count)) = 0"
  shows "solve_instance solve instructors students aircraft_count = ([], 0, int (length students))"
  using assms by (simp add: solve_instance_eq Let_def)

section \<open>The properties of the specification\<close>

text \<open>
  C1. For every valid input (a non-empty list of instructors, a non-empty list of
  students, each with a required course among 1, 2, 3 as the data model has it, and an
  aircraft capacity of at least 1), every assignment produced by solving the problem of
  \<open>create_optimization_model\<close> satisfies the five invariants. "Produced by solving" is:
  the solver has returned values \<open>vals\<close> that satisfy the problem. The assignment \<open>A\<close>
  is the set of pairs whose variable has the value 1; the rows returned are exactly these
  pairs in loop order and the assigned count returned is their number. Then
  (a) every instructor has at most one student, (b) every student has at most one
  instructor, (c) the course of an assigned student is among the qualifications of the
  instructor, (d) the number of pairs is at most the capacity, (e) every variable is 0 or 1.
\<close>

theorem produced_assignment_invariants:
  assumes "instructors \<noteq> []" and "students \<noteq> []" and "1 \<le> aircraft_count"
    and "\<forall>s\<in>set students. course s \<in> {1, 2, 3}"
    and "vals = solve (built_model instructors students aircraft_count)"
    and "feasible (built_model instructors students aircraft_count) vals"
    and "A = assigned_pairs vals (length instructors) (length students)"
  shows "fst (solve_instance solve instructors students aircraft_count) =
        map (result_row_of instructors students)
          (assigned_list vals (length instructors) (length students)) \<and>
      set (assigned_list vals (length instructors) (length students)) = A \<and>
      fst (snd (solve_instance solve instructors students aircraft_count)) = int (card A) \<and>
      (\<forall>i<length instructors. card {j. (i, j) \<in> A} \<le> 1) \<and>
      (\<forall>j<length students. card {i. (i, j) \<in> A} \<le> 1) \<and>
      (\<forall>(i, j)\<in>A. course (students ! j) \<in> set (qualifications (instructors ! i))) \<and>
      int (card A) \<le> aircraft_count \<and>
      (\<forall>i<length instructors. \<forall>j<length students. vals (i, j) = 0 \<or> vals (i, j) = 1)"
proof (intro conjI)
  show "fst (solve_instance solve instructors students aircraft_count) =
        map (result_row_of instructors students)
          (assigned_list vals (length instructors) (length students))"
    by (simp add: solve_instance_eq Let_def assms(5))
  show "set (assigned_list vals (length instructors) (length students)) = A"
    by (simp add: set_assigned_list assms(7))
  show "fst (snd (solve_instance solve instructors students aircraft_count)) = int (card A)"
    by (simp add: assigned_count_card assms(5,7))
  show "\<forall>i<length instructors. card {j. (i, j) \<in> A} \<le> 1"
    using feasible_rows_unique [OF assms(6)] by (simp add: assms(7))
  show "\<forall>j<length students. card {i. (i, j) \<in> A} \<le> 1"
    using feasible_cols_unique [OF assms(6)] by (simp add: assms(7))
  show "\<forall>(i, j)\<in>A. course (students ! j) \<in> set (qualifications (instructors ! i))"
    using feasible_compatible [OF assms(6) assms(4)] unfolding assms(7) by blast
  show "int (card A) \<le> aircraft_count"
    using feasible_card_bounds(1) [OF assms(6)] by (simp add: assms(7))
  show "\<forall>i<length instructors. \<forall>j<length students. vals (i, j) = 0 \<or> vals (i, j) = 1"
    using assms(6) unfolding feasible_iff by blast
qed

theorem produced_assignment_invariants_witness:
  "scenario_instructors \<noteq> [] \<and> scenario_students \<noteq> [] \<and> (1::int) \<le> 3 \<and>
   set (map course scenario_students) \<subseteq> {1, 2, 3} \<and>
   feasible (built_model scenario_instructors scenario_students 3)
     (diagonal_solver (built_model scenario_instructors scenario_students 3)) \<and>
   fst (solve_instance diagonal_solver scenario_instructors scenario_students 3) =
     map (result_row_of scenario_instructors scenario_students)
       (assigned_list (diagonal_solver (built_model scenario_instructors scenario_students 3))
         (length scenario_instructors) (length scenario_students)) \<and>
   list_all (\<lambda>(i, j). course (scenario_students ! j) \<in> set (qualifications (scenario_instructors ! i)))
     (assigned_list (diagonal_solver (built_model scenario_instructors scenario_students 3))
       (length scenario_instructors) (length scenario_students)) \<and>
   int (card (assigned_pairs (diagonal_solver (built_model scenario_instructors scenario_students 3))
       (length scenario_instructors) (length scenario_students))) \<le> 3"
proof -
  have h1: "scenario_instructors \<noteq> []" by code_simp
  have h2: "scenario_students \<noteq> []" by code_simp
  have h3: "(1::int) \<le> 3" by simp
  have h4: "\<forall>s\<in>set scenario_students. course s \<in> {1, 2, 3}" by code_simp
  have h4': "set (map course scenario_students) \<subseteq> {1, 2, 3}"
    using h4 by auto
  have h5: "feasible (built_model scenario_instructors scenario_students 3)
     (diagonal_solver (built_model scenario_instructors scenario_students 3))"
    by code_simp
  note inv = produced_assignment_invariants [where solve = diagonal_solver
      and instructors = scenario_instructors and students = scenario_students
      and aircraft_count = 3
      and vals = "diagonal_solver (built_model scenario_instructors scenario_students 3)"
      and A = "assigned_pairs (diagonal_solver (built_model scenario_instructors scenario_students 3))
        (length scenario_instructors) (length scenario_students)",
      OF h1 h2 h3 h4 refl h5 refl]
  from inv have c: "list_all
      (\<lambda>(i, j). course (scenario_students ! j) \<in> set (qualifications (scenario_instructors ! i)))
      (assigned_list (diagonal_solver (built_model scenario_instructors scenario_students 3))
        (length scenario_instructors) (length scenario_students))"
    unfolding list_all_iff by blast
  from inv c h1 h2 h3 h4' h5 show ?thesis by blast
qed



text \<open>
  C3, counterexample. A student whose course is 4 together with a negative capacity, and
  two empty lists with a negative capacity: in both cases the builder returns a problem
  descriptor. With the course 4 no compatibility constraint is generated, so with
  capacity 1 the solver assigns that student to an instructor qualified for course 1
  only, and the Run Optimization block shows the pair as a success.
\<close>

theorem model_building_counterexample:
  "built_model scenario3_instructors out_of_range_students (- 1) =
     \<lparr>direction = LpMaximize,
      objective = [(binary_var 0 0, 1)],
      constraints = [le_constraint [(binary_var 0 0, 1)] 1,
                     le_constraint [(binary_var 0 0, 1)] 1,
                     le_constraint [(binary_var 0 0, 1)] (- 1)]\<rparr> \<and>
   built_model [] [] (- 1) =
     \<lparr>direction = LpMaximize, objective = [], constraints = [le_constraint [] (- 1)]\<rparr> \<and>
   optimal (built_model scenario3_instructors out_of_range_students 1)
     (one_solver (built_model scenario3_instructors out_of_range_students 1)) \<and>
   run_optimization one_solver scenario3_instructors out_of_range_students 1 =
     Inr (Success 1 0
       [\<lparr>Instructor_ID = 1, Instructor_Qualifications = ''[1]'', Student_ID = 1,
         Student_Course = 4\<rparr>] 100 100 None)"
proof (intro conjI)
  show "built_model scenario3_instructors out_of_range_students (- 1) =
     \<lparr>direction = LpMaximize,
      objective = [(binary_var 0 0, 1)],
      constraints = [le_constraint [(binary_var 0 0, 1)] 1,
                     le_constraint [(binary_var 0 0, 1)] 1,
                     le_constraint [(binary_var 0 0, 1)] (- 1)]\<rparr>"
    by code_simp
  show "built_model [] [] (- 1) =
     \<lparr>direction = LpMaximize, objective = [], constraints = [le_constraint [] (- 1)]\<rparr>"
    by code_simp
  show "optimal (built_model scenario3_instructors out_of_range_students 1)
     (one_solver (built_model scenario3_instructors out_of_range_students 1))"
    by (rule optimal_if_count_reaches_bound; code_simp)
  show "run_optimization one_solver scenario3_instructors out_of_range_students 1 =
     Inr (Success 1 0
       [\<lparr>Instructor_ID = 1, Instructor_Qualifications = ''[1]'', Student_ID = 1,
         Student_Course = 4\<rparr>] 100 100 None)"
    by code_simp
qed

text \<open>
  C3, as the code has it. \<open>create_optimization_model\<close> has no check and no
  \<^verbatim>\<open>raise\<close>: it is a total function without an error result, and for every
  instructors, students and capacity it returns the problem and the dictionary of
  variables. The problem is satisfied exactly by the valuations that are 0 or 1 on every
  pair, with at most one 1 per instructor and per student, with 0 on every pair whose
  student has a course among 1, 2, 3 that the instructor is not qualified for, and with
  at most capacity many 1s. So a course outside 1, 2, 3 puts no constraint on the pair,
  a negative capacity gives a problem without solution, and an empty list gives a problem
  without variables.
\<close>

theorem model_building_never_fails:
  "create_optimization_model instructors students aircraft_count =
     (built_model instructors students aircraft_count,
      decision_variables [0..<length instructors] [0..<length students]) \<and>
   (feasible (built_model instructors students aircraft_count) vals \<longleftrightarrow>
     (\<forall>i<length instructors. \<forall>j<length students. vals (i, j) = 0 \<or> vals (i, j) = 1) \<and>
     (\<forall>i<length instructors. (\<Sum>j<length students. vals (i, j)) \<le> 1) \<and>
     (\<forall>j<length students. (\<Sum>i<length instructors. vals (i, j)) \<le> 1) \<and>
     (\<forall>i<length instructors. \<forall>j<length students.
        course (students ! j) \<in> {1, 2, 3} \<and>
        course (students ! j) \<notin> set (qualifications (instructors ! i)) \<longrightarrow> vals (i, j) = 0) \<and>
     (\<Sum>i<length instructors. \<Sum>j<length students. vals (i, j)) \<le> aircraft_count) \<and>
   (aircraft_count < 0 \<longrightarrow> \<not> feasible (built_model instructors students aircraft_count) vals) \<and>
   (instructors = [] \<or> students = [] \<longrightarrow>
      problem_variables (built_model instructors students aircraft_count) = [])"
proof (intro conjI impI)
  show "create_optimization_model instructors students aircraft_count =
     (built_model instructors students aircraft_count,
      decision_variables [0..<length instructors] [0..<length students])"
    by (simp add: built_model_def create_optimization_model_eq Let_def)
  show "feasible (built_model instructors students aircraft_count) vals \<longleftrightarrow>
     (\<forall>i<length instructors. \<forall>j<length students. vals (i, j) = 0 \<or> vals (i, j) = 1) \<and>
     (\<forall>i<length instructors. (\<Sum>j<length students. vals (i, j)) \<le> 1) \<and>
     (\<forall>j<length students. (\<Sum>i<length instructors. vals (i, j)) \<le> 1) \<and>
     (\<forall>i<length instructors. \<forall>j<length students.
        course (students ! j) \<in> {1, 2, 3} \<and>
        course (students ! j) \<notin> set (qualifications (instructors ! i)) \<longrightarrow> vals (i, j) = 0) \<and>
     (\<Sum>i<length instructors. \<Sum>j<length students. vals (i, j)) \<le> aircraft_count"
    by (rule feasible_iff)
next
  assume neg: "aircraft_count < 0"
  show "\<not> feasible (built_model instructors students aircraft_count) vals"
  proof
    assume "feasible (built_model instructors students aircraft_count) vals"
    from feasible_card_bounds(1) [OF this] neg show False by simp
  qed
next
  assume e: "instructors = [] \<or> students = []"
  have "v \<notin> set (problem_variables (built_model instructors students aircraft_count))" for v
  proof
    assume "v \<in> set (problem_variables (built_model instructors students aircraft_count))"
    from variables_subset [OF this] e show False by auto
  qed
  then show "problem_variables (built_model instructors students aircraft_count) = []"
    by (metis list.set_intros(1) neq_Nil_conv)
qed

theorem model_building_never_fails_witness:
  "\<not> feasible (built_model scenario3_instructors out_of_range_students (- 1)) (\<lambda>p. 0) \<and>
   problem_variables (built_model [] scenario_students 3) = [] \<and>
   feasible (built_model scenario3_instructors out_of_range_students 1) (\<lambda>p. 1)"
proof -
  have neg: "(- 1 :: int) < 0" by simp
  have a: "\<not> feasible (built_model scenario3_instructors out_of_range_students (- 1)) (\<lambda>p. 0)"
    using model_building_never_fails [of scenario3_instructors out_of_range_students "- 1" "\<lambda>p. 0"]
      neg by blast
  have b: "problem_variables (built_model [] scenario_students 3) = []"
    using model_building_never_fails [of "[]" scenario_students 3 "\<lambda>p. 0"] by blast
  have c: "feasible (built_model scenario3_instructors out_of_range_students 1) (\<lambda>p. 1)"
    by code_simp
  from a b c show ?thesis by blast
qed

text \<open>
  C4. The assigned count that a solve produces never exceeds the minimum of the number of
  instructors, the number of students and the aircraft capacity. "Produced by a solve"
  is: the solver has returned values that satisfy the problem it was given.
\<close>

theorem assigned_count_bounded:
  assumes "feasible (built_model instructors students aircraft_count)
      (solve (built_model instructors students aircraft_count))"
  shows "fst (snd (solve_instance solve instructors students aircraft_count)) \<le>
      min (int (length instructors)) (min (int (length students)) aircraft_count)"
  using feasible_card_bounds [OF assms] unfolding assigned_count_card by simp

theorem assigned_count_bounded_witness:
  "feasible (built_model scenario_instructors scenario_students 3)
     (diagonal_solver (built_model scenario_instructors scenario_students 3)) \<and>
   fst (snd (solve_instance diagonal_solver scenario_instructors scenario_students 3)) \<le>
     min (int (length scenario_instructors)) (min (int (length scenario_students)) 3)"
proof -
  have h: "feasible (built_model scenario_instructors scenario_students 3)
     (diagonal_solver (built_model scenario_instructors scenario_students 3))"
    by code_simp
  from h assigned_count_bounded [where solve = diagonal_solver, OF h] show ?thesis by (rule conjI)
qed

text \<open>
  C5. Monotonicity of the optimal assigned count. For fixed instructors and students, a
  larger capacity never gives a smaller assigned count; for fixed students and capacity,
  removing one course from the qualifications of one instructor never gives a larger
  assigned count. Each of the two solves compared returns an optimal solution of its own
  problem.
\<close>

theorem assigned_count_monotone:
  "(aircraft_count \<le> aircraft_count' \<and>
    optimal (built_model instructors students aircraft_count)
      (solve (built_model instructors students aircraft_count)) \<and>
    optimal (built_model instructors students aircraft_count')
      (solve' (built_model instructors students aircraft_count')) \<longrightarrow>
    fst (snd (solve_instance solve instructors students aircraft_count)) \<le>
    fst (snd (solve_instance solve' instructors students aircraft_count'))) \<and>
   (optimal (built_model instructors students aircraft_count)
      (solve (built_model instructors students aircraft_count)) \<and>
    optimal (built_model (remove_qualification instructors k c) students aircraft_count)
      (solve' (built_model (remove_qualification instructors k c) students aircraft_count)) \<longrightarrow>
    fst (snd (solve_instance solve' (remove_qualification instructors k c) students aircraft_count)) \<le>
    fst (snd (solve_instance solve instructors students aircraft_count)))"
proof (intro conjI impI; elim conjE)
  assume le: "aircraft_count \<le> aircraft_count'"
    and o: "optimal (built_model instructors students aircraft_count)
      (solve (built_model instructors students aircraft_count))"
    and o': "optimal (built_model instructors students aircraft_count')
      (solve' (built_model instructors students aircraft_count'))"
  from o have "feasible (built_model instructors students aircraft_count)
      (solve (built_model instructors students aircraft_count))"
    by (simp add: optimal_def)
  then have "feasible (built_model instructors students aircraft_count')
      (solve (built_model instructors students aircraft_count))"
    using le by (rule feasible_mono_capacity)
  from optimal_count_le [OF this o']
  show "fst (snd (solve_instance solve instructors students aircraft_count)) \<le>
    fst (snd (solve_instance solve' instructors students aircraft_count'))"
    unfolding assigned_count_card by simp
next
  let ?I' = "remove_qualification instructors k c"
  assume o: "optimal (built_model instructors students aircraft_count)
      (solve (built_model instructors students aircraft_count))"
    and o': "optimal (built_model ?I' students aircraft_count)
      (solve' (built_model ?I' students aircraft_count))"
  from o' have "feasible (built_model ?I' students aircraft_count)
      (solve' (built_model ?I' students aircraft_count))"
    by (simp add: optimal_def)
  then have "feasible (built_model instructors students aircraft_count)
      (solve' (built_model ?I' students aircraft_count))"
    by (rule feasible_mono_qualifications)
      (simp_all add: remove_qualification_length remove_qualification_subset)
  from optimal_count_le [OF this o]
  show "fst (snd (solve_instance solve' ?I' students aircraft_count)) \<le>
    fst (snd (solve_instance solve instructors students aircraft_count))"
    unfolding assigned_count_card remove_qualification_length by simp
qed

theorem assigned_count_monotone_witness:
  "(2 \<le> (3::int) \<and>
    optimal (built_model scenario_instructors scenario_students 2)
      (first_two_solver (built_model scenario_instructors scenario_students 2)) \<and>
    optimal (built_model scenario_instructors scenario_students 3)
      (diagonal_solver (built_model scenario_instructors scenario_students 3)) \<and>
    fst (snd (solve_instance first_two_solver scenario_instructors scenario_students 2)) \<le>
    fst (snd (solve_instance diagonal_solver scenario_instructors scenario_students 3))) \<and>
   (optimal (built_model scenario_instructors scenario_students 2)
      (other_two_solver (built_model scenario_instructors scenario_students 2)) \<and>
    optimal (built_model (remove_qualification scenario_instructors 2 3) scenario_students 2)
      (first_two_solver (built_model (remove_qualification scenario_instructors 2 3) scenario_students 2)) \<and>
    fst (snd (solve_instance first_two_solver (remove_qualification scenario_instructors 2 3)
      scenario_students 2)) \<le>
    fst (snd (solve_instance other_two_solver scenario_instructors scenario_students 2)))"
proof -
  have a: "optimal (built_model scenario_instructors scenario_students 2)
      (first_two_solver (built_model scenario_instructors scenario_students 2))"
    by (rule optimal_if_count_reaches_bound; code_simp)
  have b: "optimal (built_model scenario_instructors scenario_students 3)
      (diagonal_solver (built_model scenario_instructors scenario_students 3))"
    by (rule optimal_if_count_reaches_bound; code_simp)
  have c: "optimal (built_model scenario_instructors scenario_students 2)
      (other_two_solver (built_model scenario_instructors scenario_students 2))"
    by (rule optimal_if_count_reaches_bound; code_simp)
  have d: "optimal (built_model (remove_qualification scenario_instructors 2 3) scenario_students 2)
      (first_two_solver (built_model (remove_qualification scenario_instructors 2 3) scenario_students 2))"
    by (rule optimal_if_count_reaches_bound; code_simp)
  have le: "2 \<le> (3::int)" by simp
  from assigned_count_monotone [where solve = first_two_solver and solve' = diagonal_solver
      and instructors = scenario_instructors and students = scenario_students
      and aircraft_count = 2 and aircraft_count' = 3]
  have 1: "fst (snd (solve_instance first_two_solver scenario_instructors scenario_students 2)) \<le>
    fst (snd (solve_instance diagonal_solver scenario_instructors scenario_students 3))"
    using le a b by blast
  from assigned_count_monotone [where solve = other_two_solver and solve' = first_two_solver
      and instructors = scenario_instructors and students = scenario_students
      and aircraft_count = 2 and k = 2 and c = 3]
  have 2: "fst (snd (solve_instance first_two_solver (remove_qualification scenario_instructors 2 3)
      scenario_students 2)) \<le>
    fst (snd (solve_instance other_two_solver scenario_instructors scenario_students 2))"
    using c d by blast
  from le a b c d 1 2 show ?thesis by blast
qed

text \<open>
  C6, counterexample. Scenario 3 with capacity 5: no pair is compatible, the solver
  returns the all-zero solution, which is optimal, the extraction returns no row, the
  count 0 and one unassigned student, and the Run Optimization block reports this with
  \<^verbatim>\<open>st.error\<close>. And with a student who requires course 4 no pair is compatible
  either, but the optimal solution assigns the pair and the count is 1.
\<close>

theorem zero_assignment_counterexample:
  "optimal (built_model scenario3_instructors scenario3_students 5)
     (zero_solver (built_model scenario3_instructors scenario3_students 5)) \<and>
   solve_instance zero_solver scenario3_instructors scenario3_students 5 = ([], 0, 1) \<and>
   run_optimization zero_solver scenario3_instructors scenario3_students 5 =
     Inr (Error ''No students could be assigned. Check instructor qualifications and constraints.'') \<and>
   course (out_of_range_students ! 0) \<notin> set (qualifications (scenario3_instructors ! 0)) \<and>
   optimal (built_model scenario3_instructors out_of_range_students 1)
     (one_solver (built_model scenario3_instructors out_of_range_students 1)) \<and>
   fst (snd (solve_instance one_solver scenario3_instructors out_of_range_students 1)) = 1"
proof (intro conjI)
  show "optimal (built_model scenario3_instructors scenario3_students 5)
     (zero_solver (built_model scenario3_instructors scenario3_students 5))"
    by (rule no_compatible_pair_optimal; code_simp)
  show "optimal (built_model scenario3_instructors out_of_range_students 1)
     (one_solver (built_model scenario3_instructors out_of_range_students 1))"
    by (rule optimal_if_count_reaches_bound; code_simp)
qed code_simp+

text \<open>
  C6, as the code has it. When the capacity is 0, or when no instructor and student are
  compatible (student courses among 1, 2, 3), every solution that the solver can return is
  the all-zero assignment: the solve returns no row, the assigned count 0 and all students
  unassigned, without raising, and this solution is optimal. The Run Optimization block
  then takes its \<^verbatim>\<open>else\<close> branch and reports the situation with the
  \<^verbatim>\<open>st.error\<close> message.
\<close>

theorem zero_assignment_shown_as_error:
  assumes "feasible (built_model instructors students aircraft_count)
      (solve (built_model instructors students aircraft_count))"
    and "aircraft_count = 0 \<or>
      (\<forall>s\<in>set students. course s \<in> {1, 2, 3}) \<and>
      (\<forall>i<length instructors. \<forall>j<length students.
         course (students ! j) \<notin> set (qualifications (instructors ! i)))"
  shows "solve_instance solve instructors students aircraft_count =
        ([], 0, int (length students)) \<and>
      (\<forall>i<length instructors. \<forall>j<length students.
         solve (built_model instructors students aircraft_count) (i, j) = 0) \<and>
      optimal (built_model instructors students aircraft_count)
        (solve (built_model instructors students aircraft_count)) \<and>
      run_optimization solve instructors students aircraft_count =
        Inr (Error no_assignment_message)"
proof -
  have zero: "fst (snd (solve_instance solve instructors students aircraft_count)) = 0"
    and opt: "optimal (built_model instructors students aircraft_count)
        (solve (built_model instructors students aircraft_count))"
    using assms(2)
  proof -
    from assms(2) show "fst (snd (solve_instance solve instructors students aircraft_count)) = 0"
    proof
      assume "aircraft_count = 0"
      with assms(1) show ?thesis by (simp add: zero_capacity_count)
    next
      assume "(\<forall>s\<in>set students. course s \<in> {1, 2, 3}) \<and>
        (\<forall>i<length instructors. \<forall>j<length students.
           course (students ! j) \<notin> set (qualifications (instructors ! i)))"
      with assms(1) show ?thesis by (intro no_compatible_pair_count) simp_all
    qed
    from assms(2) show "optimal (built_model instructors students aircraft_count)
        (solve (built_model instructors students aircraft_count))"
    proof
      assume "aircraft_count = 0"
      with assms(1) show ?thesis by (simp add: zero_capacity_optimal)
    next
      assume "(\<forall>s\<in>set students. course s \<in> {1, 2, 3}) \<and>
        (\<forall>i<length instructors. \<forall>j<length students.
           course (students ! j) \<notin> set (qualifications (instructors ! i)))"
      with assms(1) show ?thesis by (intro no_compatible_pair_optimal) simp_all
    qed
  qed
  from zero have card0: "card (assigned_pairs (solve (built_model instructors students aircraft_count))
      (length instructors) (length students)) = 0"
    unfolding assigned_count_card by simp
  have allzero: "\<forall>i<length instructors. \<forall>j<length students.
         solve (built_model instructors students aircraft_count) (i, j) = 0"
    using count_zero_all_zero [OF assms(1) card0] by blast
  from zero_count_results [OF zero] allzero opt run_optimization_zero [OF zero]
  show ?thesis by blast
qed

theorem zero_assignment_shown_as_error_witness:
  "feasible (built_model scenario_instructors scenario_students 0)
     (zero_solver (built_model scenario_instructors scenario_students 0)) \<and>
   solve_instance zero_solver scenario_instructors scenario_students 0 =
     ([], 0, int (length scenario_students)) \<and>
   run_optimization zero_solver scenario_instructors scenario_students 0 =
     Inr (Error no_assignment_message) \<and>
   feasible (built_model scenario3_instructors scenario3_students 5)
     (zero_solver (built_model scenario3_instructors scenario3_students 5)) \<and>
   set (map course scenario3_students) \<subseteq> {1, 2, 3} \<and>
   list_all (\<lambda>i. list_all (\<lambda>j.
       course (scenario3_students ! j) \<notin> set (qualifications (scenario3_instructors ! i)))
     [0..<length scenario3_students]) [0..<length scenario3_instructors] \<and>
   run_optimization zero_solver scenario3_instructors scenario3_students 5 =
     Inr (Error no_assignment_message)"
proof -
  have f0: "feasible (built_model scenario_instructors scenario_students 0)
     (zero_solver (built_model scenario_instructors scenario_students 0))"
    by code_simp
  have f3: "feasible (built_model scenario3_instructors scenario3_students 5)
     (zero_solver (built_model scenario3_instructors scenario3_students 5))"
    by code_simp
  have r: "\<forall>s\<in>set scenario3_students. course s \<in> {1, 2, 3}"
    by code_simp
  have n: "\<forall>i<length scenario3_instructors. \<forall>j<length scenario3_students.
      course (scenario3_students ! j) \<notin> set (qualifications (scenario3_instructors ! i))"
    by (simp add: scenario3_instructors_def scenario3_students_def)
  from zero_assignment_shown_as_error [where solve = zero_solver, OF f0]
  have a: "solve_instance zero_solver scenario_instructors scenario_students 0 =
     ([], 0, int (length scenario_students)) \<and>
   run_optimization zero_solver scenario_instructors scenario_students 0 =
     Inr (Error no_assignment_message)"
    by blast
  from zero_assignment_shown_as_error [where solve = zero_solver, OF f3] r n
  have b: "run_optimization zero_solver scenario3_instructors scenario3_students 5 =
     Inr (Error no_assignment_message)"
    by blast
  have r': "set (map course scenario3_students) \<subseteq> {1, 2, 3}"
    using r by auto
  have n': "list_all (\<lambda>i. list_all (\<lambda>j.
       course (scenario3_students ! j) \<notin> set (qualifications (scenario3_instructors ! i)))
     [0..<length scenario3_students]) [0..<length scenario3_instructors]"
    using n by (simp add: list_all_iff)
  from f0 f3 r' n' a b show ?thesis by blast
qed

text \<open>
  C7, counterexample. Capacity 0 with the instructors and students of scenario 1, and no
  instructor with the same students: the Run Optimization block raises nothing; it shows
  the message of its \<^verbatim>\<open>else\<close> branch, and the two divisions are not evaluated.
\<close>

theorem division_by_zero_counterexample:
  "feasible (built_model scenario_instructors scenario_students 0)
     (zero_solver (built_model scenario_instructors scenario_students 0)) \<and>
   run_optimization zero_solver scenario_instructors scenario_students 0 =
     Inr (Error ''No students could be assigned. Check instructor qualifications and constraints.'') \<and>
   feasible (built_model [] scenario_students 3) (zero_solver (built_model [] scenario_students 3)) \<and>
   run_optimization zero_solver [] scenario_students 3 =
     Inr (Error ''No students could be assigned. Check instructor qualifications and constraints.'')"
  by code_simp

text \<open>
  C7, as the code has it. The utilization percentages are computed only under the guard
  \<^verbatim>\<open>assigned_students > 0\<close>. With no instructor the assigned count is 0, and
  with capacity 0 every solution of the problem has the count 0: in both cases the block
  shows the no-assignment message, computes no percentage and raises nothing. Whenever
  the solver returns a solution of the problem, no ZeroDivisionError is raised: a positive
  count implies at least one instructor and a positive capacity.
\<close>

theorem utilization_never_divides_by_zero:
  "(instructors = [] \<longrightarrow>
      run_optimization solve instructors students aircraft_count =
        Inr (Error no_assignment_message)) \<and>
   (feasible (built_model instructors students aircraft_count)
      (solve (built_model instructors students aircraft_count)) \<longrightarrow>
      (aircraft_count = 0 \<longrightarrow>
         run_optimization solve instructors students aircraft_count =
           Inr (Error no_assignment_message)) \<and>
      run_optimization solve instructors students aircraft_count \<noteq> Inl ZeroDivisionError \<and>
      (0 < fst (snd (solve_instance solve instructors students aircraft_count)) \<longrightarrow>
         instructors \<noteq> [] \<and> 0 < aircraft_count))"
proof (intro conjI impI)
  assume "instructors = []"
  then show "run_optimization solve instructors students aircraft_count =
        Inr (Error no_assignment_message)"
    by (simp add: run_optimization_zero empty_instructors_count)
next
  assume f: "feasible (built_model instructors students aircraft_count)
      (solve (built_model instructors students aircraft_count))"
  show "run_optimization solve instructors students aircraft_count \<noteq> Inl ZeroDivisionError"
    using f by (rule run_optimization_no_error)
  {
    assume "aircraft_count = 0"
    with f show "run_optimization solve instructors students aircraft_count =
           Inr (Error no_assignment_message)"
      by (simp add: run_optimization_zero zero_capacity_count)
  }
  {
    assume pos: "0 < fst (snd (solve_instance solve instructors students aircraft_count))"
    from feasible_card_bounds [OF f] pos show "instructors \<noteq> []" and "0 < aircraft_count"
      unfolding assigned_count_card by auto
  }
qed

theorem utilization_never_divides_by_zero_witness:
  "run_optimization zero_solver [] scenario_students 3 = Inr (Error no_assignment_message) \<and>
   feasible (built_model scenario_instructors scenario_students 0)
     (zero_solver (built_model scenario_instructors scenario_students 0)) \<and>
   run_optimization zero_solver scenario_instructors scenario_students 0 =
     Inr (Error no_assignment_message) \<and>
   feasible (built_model scenario_instructors scenario_students 3)
     (diagonal_solver (built_model scenario_instructors scenario_students 3)) \<and>
   run_optimization diagonal_solver scenario_instructors scenario_students 3 \<noteq>
     Inl ZeroDivisionError"
proof -
  have f0: "feasible (built_model scenario_instructors scenario_students 0)
     (zero_solver (built_model scenario_instructors scenario_students 0))"
    by code_simp
  have f3: "feasible (built_model scenario_instructors scenario_students 3)
     (diagonal_solver (built_model scenario_instructors scenario_students 3))"
    by code_simp
  have a: "run_optimization zero_solver [] scenario_students 3 = Inr (Error no_assignment_message)"
    using utilization_never_divides_by_zero [of "[]" zero_solver scenario_students 3] by blast
  have b: "run_optimization zero_solver scenario_instructors scenario_students 0 =
     Inr (Error no_assignment_message)"
    using utilization_never_divides_by_zero [of scenario_instructors zero_solver scenario_students 0]
      f0 by blast
  have c: "run_optimization diagonal_solver scenario_instructors scenario_students 3 \<noteq>
     Inl ZeroDivisionError"
    using utilization_never_divides_by_zero [of scenario_instructors diagonal_solver scenario_students 3]
      f3 by blast
  from a f0 b f3 c show ?thesis by blast
qed

text \<open>
  C8. The unassigned count that \<open>solve_and_display_results\<close> returns is the number of
  students minus the assigned count it returns, for every solver, problem, dictionary of
  variables and input lists.
\<close>

theorem unassigned_is_total_minus_assigned:
  "snd (snd (solve_and_display_results solve model x instructors students)) =
     int (length students) - fst (snd (solve_and_display_results solve model x instructors students))"
  by (simp add: solve_and_display_results_eq Let_def)

theorem unassigned_is_total_minus_assigned_witness:
  "snd (snd (solve_instance diagonal_solver scenario_instructors scenario_students 3)) = 0 \<and>
   fst (snd (solve_instance diagonal_solver scenario_instructors scenario_students 3)) = 3"
proof -
  have c: "fst (snd (solve_instance diagonal_solver scenario_instructors scenario_students 3)) = 3"
    by code_simp
  have "snd (snd (solve_instance diagonal_solver scenario_instructors scenario_students 3)) =
      int (length scenario_students) -
      fst (snd (solve_instance diagonal_solver scenario_instructors scenario_students 3))"
    unfolding solve_instance_def Let_def split_def
    by (rule unassigned_is_total_minus_assigned)
  with c show ?thesis by (simp add: scenario_students_def)
qed

text \<open>
  C9. Two solves of the same instructors, students and capacity give the same assigned
  count, whatever pairing each of them chooses: both runs of the solver return an optimal
  solution of the same problem, possibly different ones.
\<close>

theorem assigned_count_deterministic:
  assumes "optimal (built_model instructors students aircraft_count)
      (solve1 (built_model instructors students aircraft_count))"
    and "optimal (built_model instructors students aircraft_count)
      (solve2 (built_model instructors students aircraft_count))"
  shows "fst (snd (solve_instance solve1 instructors students aircraft_count)) =
      fst (snd (solve_instance solve2 instructors students aircraft_count))"
  using assms unfolding assigned_count_card optimal_iff
  by (simp add: order_antisym)

theorem assigned_count_deterministic_witness:
  "optimal (built_model scenario_instructors scenario_students 2)
      (first_two_solver (built_model scenario_instructors scenario_students 2)) \<and>
   optimal (built_model scenario_instructors scenario_students 2)
      (other_two_solver (built_model scenario_instructors scenario_students 2)) \<and>
   first_two_solver (built_model scenario_instructors scenario_students 2) (0, 0) \<noteq>
   other_two_solver (built_model scenario_instructors scenario_students 2) (0, 0) \<and>
   fst (snd (solve_instance first_two_solver scenario_instructors scenario_students 2)) =
   fst (snd (solve_instance other_two_solver scenario_instructors scenario_students 2))"
proof -
  have a: "optimal (built_model scenario_instructors scenario_students 2)
      (first_two_solver (built_model scenario_instructors scenario_students 2))"
    by (rule optimal_if_count_reaches_bound; code_simp)
  have c: "optimal (built_model scenario_instructors scenario_students 2)
      (other_two_solver (built_model scenario_instructors scenario_students 2))"
    by (rule optimal_if_count_reaches_bound; code_simp)
  have d: "first_two_solver (built_model scenario_instructors scenario_students 2) (0, 0) \<noteq>
   other_two_solver (built_model scenario_instructors scenario_students 2) (0, 0)"
    by (simp add: first_two_solver_def other_two_solver_def)
  from a c d assigned_count_deterministic [where ?solve1.0 = first_two_solver
      and ?solve2.0 = other_two_solver, OF a c]
  show ?thesis by blast
qed

text \<open>
  C10. The Instructor ID and Student ID of every reported pair are the positions of the
  instructor and the student in the input lists plus one. The \<^verbatim>\<open>id\<close> fields
  of the input are never read: two inputs with the same qualifications and the same
  courses, whatever their \<^verbatim>\<open>id\<close> fields, give the same result.
\<close>

theorem reported_ids_are_positions:
  assumes "map qualifications instructors' = map qualifications instructors"
    and "map course students' = map course students"
  shows "solve_instance solve instructors' students' aircraft_count =
        solve_instance solve instructors students aircraft_count \<and>
      map (\<lambda>r. (Instructor_ID r, Student_ID r))
        (fst (solve_instance solve instructors students aircraft_count)) =
      map (\<lambda>(i, j). (int i + 1, int j + 1))
        (assigned_list (solve (built_model instructors students aircraft_count))
          (length instructors) (length students))"
proof
  from assms have len: "length instructors' = length instructors" "length students' = length students"
    by (auto dest: map_eq_imp_length_eq)
  have m: "built_model instructors' students' aircraft_count =
      built_model instructors students aircraft_count"
    by (simp add: built_model_def create_optimization_model_fields [OF assms])
  show "solve_instance solve instructors' students' aircraft_count =
        solve_instance solve instructors students aircraft_count"
    by (simp add: solve_instance_eq Let_def m len result_rows_fields [OF assms])
next
  show "map (\<lambda>r. (Instructor_ID r, Student_ID r))
        (fst (solve_instance solve instructors students aircraft_count)) =
      map (\<lambda>(i, j). (int i + 1, int j + 1))
        (assigned_list (solve (built_model instructors students aircraft_count))
          (length instructors) (length students))"
    by (simp add: solve_instance_eq Let_def result_row_of_def comp_def split_def)
qed

theorem reported_ids_are_positions_witness:
  "map instructor_id renumbered_instructors = [42, 42, 42] \<and>
   map student_id renumbered_students = [17, 17, 17] \<and>
   solve_instance diagonal_solver renumbered_instructors renumbered_students 3 =
     solve_instance diagonal_solver scenario_instructors scenario_students 3 \<and>
   map (\<lambda>r. (Instructor_ID r, Student_ID r))
     (fst (solve_instance diagonal_solver renumbered_instructors renumbered_students 3)) =
     [(1, 1), (2, 2), (3, 3)]"
proof -
  have h1: "map qualifications renumbered_instructors = map qualifications scenario_instructors"
    by code_simp
  have h2: "map course renumbered_students = map course scenario_students"
    by code_simp
  have i: "map instructor_id renumbered_instructors = [42, 42, 42]" by code_simp
  have s: "map student_id renumbered_students = [17, 17, 17]" by code_simp
  have l: "map (\<lambda>(i, j). (int i + 1, int j + 1))
      (assigned_list (diagonal_solver (built_model scenario_instructors scenario_students 3))
        (length scenario_instructors) (length scenario_students)) = [(1, 1), (2, 2), (3, 3)]"
    by code_simp
  from reported_ids_are_positions [where solve = diagonal_solver and aircraft_count = 3, OF h1 h2]
  have "solve_instance diagonal_solver renumbered_instructors renumbered_students 3 =
      solve_instance diagonal_solver scenario_instructors scenario_students 3"
    and "map (\<lambda>r. (Instructor_ID r, Student_ID r))
      (fst (solve_instance diagonal_solver scenario_instructors scenario_students 3)) =
      [(1, 1), (2, 2), (3, 3)]"
    unfolding l by blast+
  with i s show ?thesis by simp
qed

end
